theory Spec2Isabelle
  imports Main
begin

section \<open>JavaScript values and string primitives used by the executor\<close>

text \<open>
  The executor of \<^verbatim>\<open>src/unnamed/part_000\<close> (class \<^verbatim>\<open>DockerExecutor\<close>, lines 1 to 280)
  is modelled. The older \<^verbatim>\<open>src/index.js\<close> computes the image to pull with the same
  lines and has the same chain of calls, with other options for the build container.
  Strings are byte lists of ASCII text. Numbers are integers: the build id and the
  timeout are integers in the source's documentation and tests, and the rendering below
  is JavaScript's for every integer of magnitude up to \<open>2^53\<close>; above, JavaScript rounds
  the digits and the model does not. Values that are not primitive (objects, arrays)
  and numbers that are not integers are left out.
\<close>

datatype jsval = JUndefined | JNull | JBool bool | JNum int | JStr string

text \<open>JavaScript truthiness, as used by \<^verbatim>\<open>buildTimeout || DEFAULT_BUILD_TIMEOUT\<close>.\<close>

fun truthy :: "jsval \<Rightarrow> bool" where
  "truthy JUndefined = False"
| "truthy JNull = False"
| "truthy (JBool b) = b"
| "truthy (JNum n) = (n \<noteq> 0)"
| "truthy (JStr s) = (s \<noteq> [])"

definition js_or :: "jsval \<Rightarrow> jsval \<Rightarrow> jsval" where
  "js_or a b = (if truthy a then a else b)"

definition digit_char :: "nat \<Rightarrow> char" where
  "digit_char d = char_of (48 + d)"

fun show_nat :: "nat \<Rightarrow> string" where
  "show_nat n = (if n < 10 then [digit_char n] else show_nat (n div 10) @ [digit_char (n mod 10)])"

declare show_nat.simps [simp del]

text \<open>Number to string, as a template literal or \<^verbatim>\<open>Array.prototype.join\<close> renders an integer.\<close>

definition show_int :: "int \<Rightarrow> string" where
  "show_int i = (if i < 0 then CHR ''-'' # show_nat (nat (- i)) else show_nat (nat i))"

fun toString :: "jsval \<Rightarrow> string" where
  "toString JUndefined = ''undefined''"
| "toString JNull = ''null''"
| "toString (JBool b) = (if b then ''true'' else ''false'')"
| "toString (JNum n) = show_int n"
| "toString (JStr s) = s"

definition is_digit :: "char \<Rightarrow> bool" where
  "is_digit c = (48 \<le> (of_char c :: nat) \<and> (of_char c :: nat) \<le> 57)"

definition is_space :: "char \<Rightarrow> bool" where
  "is_space c = ((of_char c :: nat) \<in> {9, 10, 11, 12, 13, 32})"

definition digits_val :: "string \<Rightarrow> nat" where
  "digits_val ds = foldl (\<lambda>a c. 10 * a + ((of_char c :: nat) - 48)) 0 ds"

text \<open>
  \<^verbatim>\<open>parseInt(v, 10)\<close>: the argument is converted to a string, leading white space
  (here the ASCII white space) and one sign are skipped, and the longest run of decimal
  digits is read; no digit gives \<^verbatim>\<open>NaN\<close>, here \<open>None\<close>.
\<close>

definition parseInt :: "jsval \<Rightarrow> int option" where
  "parseInt v =
     (let s = dropWhile is_space (toString v);
          neg = (case s of c # _ \<Rightarrow> c = CHR ''-'' | [] \<Rightarrow> False);
          r = (case s of c # cs \<Rightarrow> if c = CHR ''-'' \<or> c = CHR ''+'' then cs else s | [] \<Rightarrow> s);
          ds = takeWhile is_digit r
      in if ds = [] then None
         else Some (if neg then - int (digits_val ds) else int (digits_val ds)))"

text \<open>How \<^verbatim>\<open>join\<close> renders the parsed timeout: a number, or \<^verbatim>\<open>NaN\<close>.\<close>

definition show_number :: "int option \<Rightarrow> string" where
  "show_number t = (case t of None \<Rightarrow> ''NaN'' | Some n \<Rightarrow> show_int n)"

text \<open>\<^verbatim>\<open>String.prototype.split\<close> with a one-character separator.\<close>

fun split :: "char \<Rightarrow> string \<Rightarrow> string list" where
  "split c [] = [Nil]"
| "split c (x # xs) =
     (if x = c then [] # split c xs
      else (x # hd (split c xs)) # tl (split c xs))"

text \<open>\<^verbatim>\<open>Array.prototype.pop\<close>, for the array that remains; an empty array stays empty.\<close>

definition pop :: "'a list \<Rightarrow> 'a list" where
  "pop xs = butlast xs"

text \<open>\<^verbatim>\<open>Array.prototype.join\<close> on an array of strings.\<close>

fun join :: "string \<Rightarrow> string list \<Rightarrow> string" where
  "join sep [] = []"
| "join sep [x] = x"
| "join sep (x # y # ys) = x @ sep @ join sep (y # ys)"


definition hex_digit :: "nat \<Rightarrow> char" where
  "hex_digit n = ''0123456789abcdef'' ! n"

text \<open>
  \<^verbatim>\<open>JSON.stringify\<close> of one character inside a string: the quote and the backslash
  get a backslash, the control characters their short or \<^verbatim>\<open>\u00XX\<close> escape.
\<close>

definition quote_char :: "char \<Rightarrow> string" where
  "quote_char c =
     (let n = (of_char c :: nat) in
      if n = 8 then [CHR 0x5C, CHR ''b'']
      else if n = 9 then [CHR 0x5C, CHR ''t'']
      else if n = 10 then [CHR 0x5C, CHR ''n'']
      else if n = 12 then [CHR 0x5C, CHR ''f'']
      else if n = 13 then [CHR 0x5C, CHR ''r'']
      else if n = 34 then [CHR 0x5C, CHR 0x22]
      else if n = 92 then [CHR 0x5C, CHR 0x5C]
      else if n < 32 then [CHR 0x5C, CHR ''u'', CHR ''0'', CHR ''0'', hex_digit (n div 16), hex_digit (n mod 16)]
      else [c])"

definition quote_string :: "string \<Rightarrow> string" where
  "quote_string s = [CHR 0x22] @ concat (map quote_char s) @ [CHR 0x22]"

text \<open>\<^verbatim>\<open>JSON.stringify({ label: [l] })\<close>.\<close>

definition stringify_label :: "string \<Rightarrow> string" where
  "stringify_label l = ''{'' @ quote_string ''label'' @ '':['' @ quote_string l @ '']}''"

section \<open>Data model\<close>

record ecosystem =
  api :: string
  store :: string
  ui :: string

text \<open>The fields the constructor sets on \<^verbatim>\<open>this\<close>.\<close>

record executor =
  ecosystem :: ecosystem
  launchVersion :: string
  launchImage :: string
  prefix :: string

text \<open>The build request given to \<^verbatim>\<open>_start\<close>; \<^verbatim>\<open>annotations\<close> may be missing.\<close>

record config =
  buildId :: int
  container :: string
  token :: string
  annotations :: "(string \<rightharpoonup> jsval) option"

text \<open>
  What \<^verbatim>\<open>_start\<close> reads of the result of the package \<^verbatim>\<open>docker-parse-image\<close>:
  \<^verbatim>\<open>name\<close>, and \<^verbatim>\<open>tag\<close>, which is \<^verbatim>\<open>null\<close> for a reference without tag. The
  package is not part of the repository; the parser is a parameter of \<open>start\<close>, and
  \<open>dockerParseImage\<close> below is the parser of the package.
\<close>

record pieces =
  pieces_name :: string
  pieces_tag :: "string option"

record image_opts =
  fromImage :: string
  tag :: string

record host_config =
  Memory :: int
  MemoryLimit :: int
  VolumesFrom :: "string list"
  Privileged :: bool
  Binds :: "string list"

record container_opts =
  name :: string
  Image :: string
  Entrypoint :: string
  Labels :: "(string \<times> string) list"
  Cmd :: "string list option"
  HostConfig :: "host_config option"

record list_args =
  filters :: string
  args_all :: bool

record remove_opts =
  remove_v :: bool
  remove_force :: bool

text \<open>A container object of the Docker client: the code reads its \<^verbatim>\<open>id\<close>.\<close>

record container =
  container_id :: string

text \<open>An entry of the array \<^verbatim>\<open>listContainers\<close> yields: the code reads its \<^verbatim>\<open>Id\<close>.\<close>

record container_info =
  info_Id :: string

datatype error = TypeError | DockerError string

section \<open>The Docker client behind the breaker, and the log of calls\<close>

datatype call =
    CreateImage image_opts
  | CreateContainer container_opts
  | StartContainer container
  | ListContainers list_args
  | RemoveContainer container remove_opts

datatype reply = Failed error | Done | Created container | Found "container_info list"

text \<open>
  \<open>Issued c\<close>: a method of the executor has handed the call \<open>c\<close> to the breaker.
  \<open>Settled c r\<close>: the promise of \<open>c\<close> has settled with \<open>r\<close> and the code waiting on it
  has seen that.
\<close>

datatype event = Issued call | Settled call reply

text \<open>
  The Docker client and the breaker (\<^verbatim>\<open>dockerode\<close>, \<^verbatim>\<open>circuit-fuses\<close>) are external.
  What \<^verbatim>\<open>this.breaker.runCommand\<close> reports for each Docker call is given by the
  environment, which has a state of its own. \<open>first_rejected\<close> tells which of several
  rejected promises that are in flight together rejects first.
\<close>

record 's docker =
  docker_createImage :: "image_opts \<Rightarrow> 's \<Rightarrow> (error + unit) \<times> 's"
  docker_createContainer :: "container_opts \<Rightarrow> 's \<Rightarrow> (error + container) \<times> 's"
  docker_listContainers :: "list_args \<Rightarrow> 's \<Rightarrow> (error + container_info list) \<times> 's"
  docker_getContainer :: "string \<Rightarrow> container"
  container_start :: "container \<Rightarrow> 's \<Rightarrow> (error + unit) \<times> 's"
  container_remove :: "container \<Rightarrow> remove_opts \<Rightarrow> 's \<Rightarrow> (error + unit) \<times> 's"
  first_rejected :: "'s \<Rightarrow> nat list \<Rightarrow> nat"

record 's world =
  runtime :: 's
  events :: "event list"

text \<open>A promise: the call in flight and what it will settle with.\<close>

type_synonym 'a promise = "call \<times> (error + 'a)"

definition issue :: "call \<Rightarrow> ((error + 'a) \<times> 's) \<Rightarrow> 's world \<Rightarrow> 'a promise \<times> 's world" where
  "issue c r w = ((c, fst r), \<lparr>runtime = snd r, events = events w @ [Issued c]\<rparr>)"

definition createContainer :: "'s docker \<Rightarrow> container_opts \<Rightarrow> 's world \<Rightarrow> container promise \<times> 's world" where
  "createContainer d options w =
     issue (CreateContainer options) (docker_createContainer d options (runtime w)) w"

definition createImage :: "'s docker \<Rightarrow> image_opts \<Rightarrow> 's world \<Rightarrow> unit promise \<times> 's world" where
  "createImage d options w =
     issue (CreateImage options) (docker_createImage d options (runtime w)) w"

definition startContainer :: "'s docker \<Rightarrow> container \<Rightarrow> 's world \<Rightarrow> unit promise \<times> 's world" where
  "startContainer d c w =
     issue (StartContainer c) (container_start d c (runtime w)) w"

definition removeContainer :: "'s docker \<Rightarrow> container \<Rightarrow> 's world \<Rightarrow> unit promise \<times> 's world" where
  "removeContainer d c w =
     issue (RemoveContainer c \<lparr>remove_v = True, remove_force = True\<rparr>)
       (container_remove d c \<lparr>remove_v = True, remove_force = True\<rparr> (runtime w)) w"

text \<open>\<^verbatim>\<open>.then\<close> on one promise: the continuation sees the value, or the chain rejects.\<close>

definition settle :: "('a \<Rightarrow> reply) \<Rightarrow> 'a promise \<Rightarrow> 's world \<Rightarrow> (error + 'a) \<times> 's world" where
  "settle f p w =
     (snd p, w\<lparr>events := events w @
        [Settled (fst p) (case snd p of Inl e \<Rightarrow> Failed e | Inr x \<Rightarrow> f x)]\<rparr>)"

text \<open>
  \<^verbatim>\<open>Promise.all\<close>: fulfilled with all values once every promise is fulfilled; rejected
  with the error of the promise that rejects first, the others still in flight.
\<close>

definition promise_all ::
  "'s docker \<Rightarrow> ('a \<Rightarrow> reply) \<Rightarrow> 'a promise list \<Rightarrow> 's world \<Rightarrow> (error + 'a list) \<times> 's world" where
  "promise_all d f ps w =
     (let rejected = filter (\<lambda>i. isl (snd (ps ! i))) [0..<length ps] in
      if rejected = [] then
        (Inr (map (\<lambda>p. projr (snd p)) ps),
         w\<lparr>events := events w @ map (\<lambda>p. Settled (fst p) (f (projr (snd p)))) ps\<rparr>)
      else
        let k = first_rejected d (runtime w) rejected;
            i = (if k \<in> set rejected then k else hd rejected);
            p = ps ! i
        in (Inl (projl (snd p)),
            w\<lparr>events := events w @ [Settled (fst p) (Failed (projl (snd p)))]\<rparr>))"

section \<open>The image parser\<close>

text \<open>
  Modelled from the spec: the parser of the package \<^verbatim>\<open>docker-parse-image\<close>, which
  \<^verbatim>\<open>_start\<close> calls as \<^verbatim>\<open>imageParser\<close> and which is not under \<^verbatim>\<open>src/\<close>. It reads
  the grammar \<^verbatim>\<open>[registry-host[:port]/][namespace/]repository[:tag]\<close> of the
  specification with the one regular expression of the package: up to two segments, each
  a non-empty run without a slash and then a slash; the repository name, a non-empty run
  without \<^verbatim>\<open>@\<close>, colon and slash; then, if anything is left, \<^verbatim>\<open>@\<close> or a colon and a
  non-empty tag that runs to the end of the reference, on one line. A first segment
  that is alone and holds neither a colon nor a dot is the namespace, not the registry.
  The \<^verbatim>\<open>name\<close> of the result is registry, namespace and repository with a colon and
  the tag, leaving out a namespace \<^verbatim>\<open>library\<close> and a tag \<^verbatim>\<open>latest\<close>; the result is
  \<^verbatim>\<open>null\<close> when the reference does not match. The tests of the repository run this
  parser: their expected pulls are the ones it gives.
\<close>

text \<open>One segment: \<open>match_segment s = Some (a, rest)\<close> when \<open>s\<close> is \<open>a/rest\<close>.\<close>

definition match_segment :: "string \<Rightarrow> (string \<times> string) option" where
  "match_segment s =
     (let a = takeWhile (\<lambda>x. x \<noteq> CHR ''/'') s;
          rest = dropWhile (\<lambda>x. x \<noteq> CHR ''/'') s
      in if a \<noteq> [] \<and> rest \<noteq> [] then Some (a, tl rest) else None)"

definition name_char :: "char \<Rightarrow> bool" where
  "name_char x = (x \<noteq> CHR ''@'' \<and> x \<noteq> CHR '':'' \<and> x \<noteq> CHR ''/'')"

definition line_terminator :: "char \<Rightarrow> bool" where
  "line_terminator x = (x = CHR 0x0A \<or> x = CHR 0x0D)"

text \<open>The repository name and the tag, to the end of the reference.\<close>

definition match_repository :: "string \<Rightarrow> (string \<times> string option) option" where
  "match_repository s =
     (let c = takeWhile name_char s;
          rest = dropWhile name_char s
      in if c = [] then None
         else (case rest of
                 [] \<Rightarrow> Some (c, None)
               | x # t \<Rightarrow>
                   if (x = CHR ''@'' \<or> x = CHR '':'') \<and> t \<noteq> [] \<and> list_all (\<lambda>y. \<not> line_terminator y) t
                   then Some (c, Some t) else None))"

text \<open>
  The match, as registry, namespace, repository and tag. The expression is tried with
  two segments first, then with one, then with none.
\<close>

definition image_match ::
  "string \<Rightarrow> (string option \<times> string option \<times> string \<times> string option) option" where
  "image_match s =
     (let unprefixed = map_option (\<lambda>(c, t). (None, None, c, t)) (match_repository s)
      in case match_segment s of
           None \<Rightarrow> unprefixed
         | Some (a, s1) \<Rightarrow>
             (let one = (case match_repository s1 of
                           Some (c, t) \<Rightarrow> Some (Some a, None, c, t)
                         | None \<Rightarrow> unprefixed)
              in case match_segment s1 of
                   None \<Rightarrow> one
                 | Some (b, s2) \<Rightarrow>
                     (case match_repository s2 of
                        Some (c, t) \<Rightarrow> Some (Some a, Some b, c, t)
                      | None \<Rightarrow> one)))"

text \<open>The function the package exports.\<close>

definition dockerParseImage :: "string \<Rightarrow> pieces option" where
  "dockerParseImage reference =
     (case image_match reference of
        None \<Rightarrow> None
      | Some (registry0, namespace0, repository, tag0) \<Rightarrow>
          (let bare = (namespace0 = None \<and>
                       (case registry0 of
                          None \<Rightarrow> False
                        | Some g \<Rightarrow> CHR '':'' \<notin> set g \<and> CHR ''.'' \<notin> set g));
               registry = (if bare then None else registry0);
               namespace = (if bare then registry0 else namespace0);
               registry_part = (case registry of None \<Rightarrow> [] | Some g \<Rightarrow> g @ ''/'');
               namespace_part = (case namespace of
                                   None \<Rightarrow> []
                                 | Some n \<Rightarrow> if n \<noteq> ''library'' then n @ ''/'' else []);
               tag_part = (case tag0 of
                             None \<Rightarrow> []
                           | Some t \<Rightarrow> if t \<noteq> ''latest'' then '':'' @ t else [])
           in Some \<lparr>pieces_name = registry_part @ namespace_part @ repository @ tag_part,
                     pieces_tag = tag0\<rparr>))"

text \<open>The segments before the repository that the parser keeps in the name.\<close>

definition kept_segments :: "string list \<Rightarrow> string list" where
  "kept_segments ns = (if ns \<noteq> [] \<and> last ns = ''library'' then butlast ns else ns)"

section \<open>The executor\<close>

definition DEFAULT_BUILD_TIMEOUT :: int where
  "DEFAULT_BUILD_TIMEOUT = 90"

text \<open>
  \<^verbatim>\<open>hoek.reach(config, 'annotations>screwdriver.cd/timeout', { separator: '>' })\<close>:
  the value under the key, \<^verbatim>\<open>undefined\<close> when \<^verbatim>\<open>annotations\<close> or the key is missing.
\<close>

definition buildTimeout :: "config \<Rightarrow> jsval" where
  "buildTimeout config =
     (case annotations config of
        None \<Rightarrow> JUndefined
      | Some a \<Rightarrow> (case a ''screwdriver.cd/timeout'' of None \<Rightarrow> JUndefined | Some v \<Rightarrow> v))"

definition timeout :: "config \<Rightarrow> int option" where
  "timeout config = parseInt (js_or (buildTimeout config) (JNum DEFAULT_BUILD_TIMEOUT))"

text \<open>
  Lines 139 to 164 of \<^verbatim>\<open>_start\<close>: \<^verbatim>\<open>buildImage\<close> and \<^verbatim>\<open>buildTag\<close>, as the pair
  given to the second \<^verbatim>\<open>_createImage\<close>.
\<close>

definition buildImageArgs :: "pieces \<Rightarrow> image_opts" where
  "buildImageArgs piecesParts =
     (case pieces_tag piecesParts of
        None \<Rightarrow> \<lparr>fromImage = pieces_name piecesParts, tag = ''latest''\<rparr>
      | Some t \<Rightarrow>
          if t \<noteq> ''latest''
          then \<lparr>fromImage = join '':'' (pop (split CHR '':'' (pieces_name piecesParts))), tag = t\<rparr>
          else \<lparr>fromImage = pieces_name piecesParts, tag = ''latest''\<rparr>)"

definition launcherImageArgs :: "executor \<Rightarrow> image_opts" where
  "launcherImageArgs this = \<lparr>fromImage = launchImage this, tag = launchVersion this\<rparr>"

text \<open>The options of the first \<^verbatim>\<open>_createContainer\<close> (lines 177 to 184).\<close>

definition launcherArgs :: "executor \<Rightarrow> config \<Rightarrow> container_opts" where
  "launcherArgs this config =
     \<lparr>name = prefix this @ show_int (buildId config) @ ''-init'',
      Image = launchImage this @ '':'' @ launchVersion this,
      Entrypoint = ''/bin/true'',
      Labels = [(''sdbuild'', prefix this @ show_int (buildId config))],
      Cmd = None,
      HostConfig = None\<rparr>"

text \<open>The options of the second \<^verbatim>\<open>_createContainer\<close> (lines 187 to 215).\<close>

definition buildArgs :: "executor \<Rightarrow> config \<Rightarrow> container \<Rightarrow> container_opts" where
  "buildArgs this config launchContainer =
     \<lparr>name = prefix this @ show_int (buildId config) @ ''-build'',
      Image = container config,
      Entrypoint = ''/opt/sd/launcher_entrypoint.sh'',
      Labels = [(''sdbuild'', prefix this @ show_int (buildId config))],
      Cmd = Some [join '' ''
        [''/opt/sd/run.sh'',
         [CHR 0x22] @ token config @ [CHR 0x22],
         api (ecosystem this),
         store (ecosystem this),
         show_number (timeout config),
         show_int (buildId config),
         ui (ecosystem this)]],
      HostConfig = Some
        \<lparr>Memory = 2 * 1024 * 1024 * 1024,
         MemoryLimit = 3 * 1024 * 1024 * 1024,
         VolumesFrom = [container_id launchContainer @ '':rw''],
         Privileged = True,
         Binds = [''/var/run/docker.sock:/var/run/docker.sock'']\<rparr>\<rparr>"

text \<open>
  \<^verbatim>\<open>_start\<close>. A parser result of \<^verbatim>\<open>null\<close> makes \<^verbatim>\<open>piecesParts.tag\<close> throw before
  any call. The two \<^verbatim>\<open>_createImage\<close> calls are made while the array given to
  \<^verbatim>\<open>Promise.all\<close> is built, before either promise is waited for.
\<close>

definition start ::
  "(string \<Rightarrow> pieces option) \<Rightarrow> executor \<Rightarrow> 's docker \<Rightarrow> config \<Rightarrow> 's world
     \<Rightarrow> (error + unit) \<times> 's world" where
  "start imageParser this d config w =
     (case imageParser (container config) of
        None \<Rightarrow> (Inl TypeError, w)
      | Some piecesParts \<Rightarrow>
          (let (p1, w1) = createImage d (launcherImageArgs this) w;
               (p2, w2) = createImage d (buildImageArgs piecesParts) w1;
               (r, w3) = promise_all d (\<lambda>_. Done) [p1, p2] w2
           in (case r of
                 Inl e \<Rightarrow> (Inl e, w3)
               | Inr _ \<Rightarrow>
                   (let (p3, w4) = createContainer d (launcherArgs this config) w3;
                        (r3, w5) = settle Created p3 w4
                    in (case r3 of
                          Inl e \<Rightarrow> (Inl e, w5)
                        | Inr launchContainer \<Rightarrow>
                            (let (p4, w6) = createContainer d (buildArgs this config launchContainer) w5;
                                 (r4, w7) = settle Created p4 w6
                             in (case r4 of
                                   Inl e \<Rightarrow> (Inl e, w7)
                                 | Inr buildContainer \<Rightarrow>
                                     (let (p5, w8) = startContainer d buildContainer w7
                                      in settle (\<lambda>_. Done) p5 w8))))))))"

text \<open>\<^verbatim>\<open>_findContainers\<close>.\<close>

definition listArgs :: "executor \<Rightarrow> int \<Rightarrow> list_args" where
  "listArgs this b =
     \<lparr>filters = stringify_label (''sdbuild='' @ prefix this @ show_int b), args_all = True\<rparr>"

definition findContainers ::
  "executor \<Rightarrow> 's docker \<Rightarrow> int \<Rightarrow> 's world \<Rightarrow> (error + container list) \<times> 's world" where
  "findContainers this d b w =
     (let (p, w1) = issue (ListContainers (listArgs this b))
                      (docker_listContainers d (listArgs this b) (runtime w)) w;
          (r, w2) = settle Found p w1
      in case r of
           Inl e \<Rightarrow> (Inl e, w2)
         | Inr containers \<Rightarrow> (Inr (map (\<lambda>c. docker_getContainer d (info_Id c)) containers), w2))"

text \<open>\<^verbatim>\<open>containers.map(container => this._removeContainer(container))\<close>.\<close>

fun removeContainers ::
  "'s docker \<Rightarrow> container list \<Rightarrow> 's world \<Rightarrow> unit promise list \<times> 's world" where
  "removeContainers d [] w = ([], w)"
| "removeContainers d (c # cs) w =
     (let (p, w1) = removeContainer d c w;
          (ps, w2) = removeContainers d cs w1
      in (p # ps, w2))"

text \<open>\<^verbatim>\<open>_stop\<close>.\<close>

definition stop ::
  "executor \<Rightarrow> 's docker \<Rightarrow> int \<Rightarrow> 's world \<Rightarrow> (error + unit list) \<times> 's world" where
  "stop this d b w =
     (let (r, w1) = findContainers this d b w
      in case r of
           Inl e \<Rightarrow> (Inl e, w1)
         | Inr containers \<Rightarrow>
             let (ps, w2) = removeContainers d containers w1
             in promise_all d (\<lambda>_. Done) ps w2)"

text \<open>The calls a log holds, in the order they were issued.\<close>

fun issued :: "event list \<Rightarrow> call list" where
  "issued [] = []"
| "issued (Issued c # es) = c # issued es"
| "issued (Settled c r # es) = issued es"

section \<open>Vocabulary for logs\<close>

abbreviation launcherPull :: "executor \<Rightarrow> call" where
  "launcherPull this \<equiv> CreateImage (launcherImageArgs this)"

abbreviation buildPull :: "pieces \<Rightarrow> call" where
  "buildPull piecesParts \<equiv> CreateImage (buildImageArgs piecesParts)"

abbreviation createLauncher :: "executor \<Rightarrow> config \<Rightarrow> call" where
  "createLauncher this config \<equiv> CreateContainer (launcherArgs this config)"

abbreviation createBuild :: "executor \<Rightarrow> config \<Rightarrow> container \<Rightarrow> call" where
  "createBuild this config launchContainer \<equiv>
     CreateContainer (buildArgs this config launchContainer)"

text \<open>The log of \<open>start\<close> once both pulls are done.\<close>

definition pulled :: "executor \<Rightarrow> pieces \<Rightarrow> event list" where
  "pulled this piecesParts =
     [Issued (launcherPull this), Issued (buildPull piecesParts),
      Settled (launcherPull this) Done, Settled (buildPull piecesParts) Done]"

text \<open>The log once the support container exists.\<close>

definition launched :: "executor \<Rightarrow> config \<Rightarrow> pieces \<Rightarrow> container \<Rightarrow> event list" where
  "launched this config piecesParts launchContainer =
     pulled this piecesParts @
     [Issued (createLauncher this config),
      Settled (createLauncher this config) (Created launchContainer)]"

text \<open>The log once the build container exists.\<close>

definition built ::
  "executor \<Rightarrow> config \<Rightarrow> pieces \<Rightarrow> container \<Rightarrow> container \<Rightarrow> event list" where
  "built this config piecesParts launchContainer buildContainer =
     launched this config piecesParts launchContainer @
     [Issued (createBuild this config launchContainer),
      Settled (createBuild this config launchContainer) (Created buildContainer)]"

text \<open>
  \<open>happens_before a b es\<close>: reading the log \<open>es\<close> from its start, \<open>a\<close> is met before
  any \<open>b\<close>, or \<open>b\<close> is not in the log at all.
\<close>

fun happens_before :: "event \<Rightarrow> event \<Rightarrow> event list \<Rightarrow> bool" where
  "happens_before a b [] = True"
| "happens_before a b (e # es) = (e = a \<or> (e \<noteq> b \<and> happens_before a b es))"

section \<open>Test doubles, after the tests of the repository\<close>

text \<open>
  The executor, the build request and the expected container options of the test
  \<^verbatim>\<open>creates the required containers and starts them\<close>.
\<close>

definition executorMock :: executor where
  "executorMock =
     \<lparr>ecosystem = \<lparr>api = ''api'', store = ''store'', ui = ''ui''\<rparr>,
      launchVersion = ''stable'',
      launchImage = ''screwdrivercd/launcher'',
      prefix = []\<rparr>"

definition configMock :: config where
  "configMock = \<lparr>buildId = 1992, container = ''node:6'', token = ''123456'', annotations = None\<rparr>"

definition launcherContainerMock :: container where
  "launcherContainerMock = \<lparr>container_id = ''launcherID''\<rparr>"

definition buildContainerMock :: container where
  "buildContainerMock = \<lparr>container_id = ''buildID''\<rparr>"

definition containerMock :: container where
  "containerMock = \<lparr>container_id = ''containerID''\<rparr>"

definition launcherArgsMock :: container_opts where
  "launcherArgsMock =
     \<lparr>name = ''1992-init'',
      Image = ''screwdrivercd/launcher:stable'',
      Entrypoint = ''/bin/true'',
      Labels = [(''sdbuild'', ''1992'')],
      Cmd = None,
      HostConfig = None\<rparr>"

definition buildArgsMock :: "string \<Rightarrow> container_opts" where
  "buildArgsMock minutes =
     \<lparr>name = ''1992-build'',
      Image = ''node:6'',
      Entrypoint = ''/opt/sd/launcher_entrypoint.sh'',
      Labels = [(''sdbuild'', ''1992'')],
      Cmd = Some [''/opt/sd/run.sh '' @ [CHR 0x22] @ ''123456'' @ [CHR 0x22] @ '' api store ''
                  @ minutes @ '' 1992 ui''],
      HostConfig = Some
        \<lparr>Memory = 2147483648,
         MemoryLimit = 3221225472,
         VolumesFrom = [''launcherID:rw''],
         Privileged = True,
         Binds = [''/var/run/docker.sock:/var/run/docker.sock'']\<rparr>\<rparr>"

text \<open>
  \<^verbatim>\<open>dockerMock.createContainer\<close> with its two \<^verbatim>\<open>withArgs\<close> answers; any other
  options give the error \<^verbatim>\<open>bad container args\<close>.
\<close>

definition createContainerStub :: "string \<Rightarrow> container_opts \<Rightarrow> error + container" where
  "createContainerStub minutes options =
     (if options = launcherArgsMock then Inr launcherContainerMock
      else if options = buildArgsMock minutes then Inr buildContainerMock
      else Inl (DockerError ''bad container args''))"

text \<open>
  \<^verbatim>\<open>dockerMock\<close>: the answers of \<^verbatim>\<open>createContainer\<close>, of a container's \<^verbatim>\<open>start\<close> and
  of \<^verbatim>\<open>listContainers\<close> are set by each test; \<^verbatim>\<open>createImage\<close> and \<^verbatim>\<open>remove\<close> succeed
  and \<^verbatim>\<open>getContainer\<close> returns \<^verbatim>\<open>containerMock\<close>.
\<close>

definition dockerMock ::
  "(container_opts \<Rightarrow> error + container) \<Rightarrow> (container \<Rightarrow> error + unit)
     \<Rightarrow> (list_args \<Rightarrow> error + container_info list) \<Rightarrow> unit docker" where
  "dockerMock create starting listing =
     \<lparr>docker_createImage = (\<lambda>options s. (Inr (), s)),
      docker_createContainer = (\<lambda>options s. (create options, s)),
      docker_listContainers = (\<lambda>args s. (listing args, s)),
      docker_getContainer = (\<lambda>i. containerMock),
      container_start = (\<lambda>c s. (starting c, s)),
      container_remove = (\<lambda>c options s. (Inr (), s)),
      first_rejected = (\<lambda>s rejected. hd rejected)\<rparr>"

text \<open>
  Results of the image parser for the references of the tests and of the specification:
  the name as written, without a tag \<^verbatim>\<open>latest\<close>, and the tag.
\<close>

definition imageParserMock :: "string \<Rightarrow> pieces option" where
  "imageParserMock reference =
     (if reference = ''node:6''
        then Some \<lparr>pieces_name = ''node:6'', pieces_tag = Some ''6''\<rparr>
      else if reference = ''node''
        then Some \<lparr>pieces_name = ''node'', pieces_tag = None\<rparr>
      else if reference = ''docker-registry.foo.bar:1111/someImage:latest''
        then Some \<lparr>pieces_name = ''docker-registry.foo.bar:1111/someImage'',
                    pieces_tag = Some ''latest''\<rparr>
      else if reference = ''docker-registry.foo.bar:1111/someImage''
        then Some \<lparr>pieces_name = ''docker-registry.foo.bar:1111/someImage'', pieces_tag = None\<rparr>
      else if reference = ''host:1111/someImage:v2''
        then Some \<lparr>pieces_name = ''host:1111/someImage:v2'', pieces_tag = Some ''v2''\<rparr>
      else None)"

definition world0 :: "unit world" where
  "world0 = \<lparr>runtime = (), events = []\<rparr>"

text \<open>The logs the three runs of \<open>start\<close> on the test doubles leave.\<close>

definition startLogMock :: "event list" where
  "startLogMock =
     [Issued (CreateImage \<lparr>fromImage = ''screwdrivercd/launcher'', tag = ''stable''\<rparr>),
      Issued (CreateImage \<lparr>fromImage = ''node'', tag = ''6''\<rparr>),
      Settled (CreateImage \<lparr>fromImage = ''screwdrivercd/launcher'', tag = ''stable''\<rparr>) Done,
      Settled (CreateImage \<lparr>fromImage = ''node'', tag = ''6''\<rparr>) Done,
      Issued (CreateContainer launcherArgsMock),
      Settled (CreateContainer launcherArgsMock) (Created launcherContainerMock),
      Issued (CreateContainer (buildArgsMock ''90'')),
      Settled (CreateContainer (buildArgsMock ''90'')) (Created buildContainerMock),
      Issued (StartContainer buildContainerMock),
      Settled (StartContainer buildContainerMock) Done]"

definition createFailLogMock :: "event list" where
  "createFailLogMock =
     [Issued (CreateImage \<lparr>fromImage = ''screwdrivercd/launcher'', tag = ''stable''\<rparr>),
      Issued (CreateImage \<lparr>fromImage = ''node'', tag = ''6''\<rparr>),
      Settled (CreateImage \<lparr>fromImage = ''screwdrivercd/launcher'', tag = ''stable''\<rparr>) Done,
      Settled (CreateImage \<lparr>fromImage = ''node'', tag = ''6''\<rparr>) Done,
      Issued (CreateContainer launcherArgsMock),
      Settled (CreateContainer launcherArgsMock)
        (Failed (DockerError ''Unable to create container''))]"

definition startFailLogMock :: "event list" where
  "startFailLogMock =
     [Issued (CreateImage \<lparr>fromImage = ''screwdrivercd/launcher'', tag = ''stable''\<rparr>),
      Issued (CreateImage \<lparr>fromImage = ''node'', tag = ''6''\<rparr>),
      Settled (CreateImage \<lparr>fromImage = ''screwdrivercd/launcher'', tag = ''stable''\<rparr>) Done,
      Settled (CreateImage \<lparr>fromImage = ''node'', tag = ''6''\<rparr>) Done,
      Issued (CreateContainer launcherArgsMock),
      Settled (CreateContainer launcherArgsMock) (Created launcherContainerMock),
      Issued (CreateContainer (buildArgsMock ''90'')),
      Settled (CreateContainer (buildArgsMock ''90'')) (Created buildContainerMock),
      Issued (StartContainer buildContainerMock),
      Settled (StartContainer buildContainerMock)
        (Failed (DockerError ''Unable to start container''))]"

text \<open>
  The test \<^verbatim>\<open>finds and removes the containers\<close>: \<^verbatim>\<open>listContainers\<close> answers the
  expected query with two entries and any other query with an error.
\<close>

definition containerShellMock :: container_info where
  "containerShellMock = \<lparr>info_Id = ''containerID''\<rparr>"

definition findArgsMock :: list_args where
  "findArgsMock =
     \<lparr>filters = ''{'' @ [CHR 0x22] @ ''label'' @ [CHR 0x22] @ '':['' @ [CHR 0x22]
                 @ ''sdbuild=1992'' @ [CHR 0x22] @ '']}'',
      args_all = True\<rparr>"

definition listContainersStub :: "list_args \<Rightarrow> error + container_info list" where
  "listContainersStub args =
     (if args = findArgsMock then Inr [containerShellMock, containerShellMock]
      else Inl (DockerError ''bad container args''))"

section \<open>Strings and numbers\<close>

lemma split_not_Nil: "split c s \<noteq> []"
  by (induction s) auto

lemma split_no_sep: "c \<notin> set t \<Longrightarrow> split c t = [t]"
  by (induction t) auto

lemma split_append_sep:
  "c \<notin> set t \<Longrightarrow> split c (r @ c # t) = split c r @ [t]"
proof (induction r)
  case Nil
  then show ?case by (simp add: split_no_sep)
next
  case (Cons x r)
  have ne: "split c r \<noteq> []" by (rule split_not_Nil)
  show ?case
  proof (cases "x = c")
    case True
    with Cons show ?thesis by simp
  next
    case False
    with Cons ne show ?thesis by (simp add: hd_append)
  qed
qed

lemma join_split: "join [c] (split c s) = s"
proof (induction s)
  case Nil
  show ?case by simp
next
  case (Cons x s)
  obtain a as where A: "split c s = a # as"
    using split_not_Nil [of c s] by (cases "split c s") auto
  show ?case
  proof (cases "x = c")
    case True
    with Cons A show ?thesis by simp
  next
    case False
    with Cons A show ?thesis by (cases as) auto
  qed
qed

lemma strip_tag:
  assumes "c \<notin> set t"
  shows "join [c] (pop (split c (r @ c # t))) = r"
  using assms by (simp add: split_append_sep pop_def join_split)

lemma of_char_digit_char: "d < 10 \<Longrightarrow> (of_char (digit_char d) :: nat) = 48 + d"
  by (simp add: digit_char_def)

lemma is_digit_digit_char: "d < 10 \<Longrightarrow> is_digit (digit_char d)"
  by (simp add: is_digit_def of_char_digit_char)

lemma show_nat_digits: "\<forall>c \<in> set (show_nat n). is_digit c"
proof (induction n rule: show_nat.induct)
  case (1 n)
  show ?case
  proof (cases "n < 10")
    case True
    then show ?thesis by (subst show_nat.simps) (simp add: is_digit_digit_char)
  next
    case False
    with 1 show ?thesis by (subst show_nat.simps) (simp add: is_digit_digit_char)
  qed
qed

lemma show_nat_not_Nil: "show_nat n \<noteq> []"
  by (subst show_nat.simps) simp

lemma digits_val_snoc: "digits_val (ds @ [c]) = 10 * digits_val ds + ((of_char c :: nat) - 48)"
  by (simp add: digits_val_def)

lemma digits_val_show_nat: "digits_val (show_nat n) = n"
proof (induction n rule: show_nat.induct)
  case (1 n)
  show ?case
  proof (cases "n < 10")
    case True
    then show ?thesis
      by (subst show_nat.simps) (simp add: digits_val_def of_char_digit_char)
  next
    case False
    with 1 have "digits_val (show_nat (n div 10)) = n div 10" by simp
    with False show ?thesis
      by (subst show_nat.simps) (simp add: digits_val_snoc of_char_digit_char)
  qed
qed

lemma is_digit_not_space: "is_digit c \<Longrightarrow> \<not> is_space c"
  by (auto simp: is_digit_def is_space_def)

lemma is_digit_not_sign: "is_digit c \<Longrightarrow> c \<noteq> CHR ''-'' \<and> c \<noteq> CHR ''+''"
  by (auto simp: is_digit_def)

lemma parseInt_digits:
  assumes "ds \<noteq> []" and "\<forall>c \<in> set ds. is_digit c"
  shows "parseInt (JStr ds) = Some (int (digits_val ds))"
proof -
  obtain c cs where s: "ds = c # cs"
    using assms(1) by (cases ds) auto
  have d: "is_digit c" using assms(2) s by simp
  have tw: "takeWhile is_digit cs = cs"
    using assms(2) s by (simp add: takeWhile_eq_all_conv)
  show ?thesis
    using d is_digit_not_space [OF d] is_digit_not_sign [OF d]
    by (simp add: parseInt_def s Let_def tw)
qed

lemma parseInt_minus_digits:
  assumes "ds \<noteq> []" and "\<forall>c \<in> set ds. is_digit c"
  shows "parseInt (JStr (CHR ''-'' # ds)) = Some (- int (digits_val ds))"
proof -
  have tw: "takeWhile is_digit ds = ds"
    using assms(2) by (simp add: takeWhile_eq_all_conv)
  have sp: "\<not> is_space CHR ''-''" by (simp add: is_space_def)
  show ?thesis
    using assms(1) sp by (simp add: parseInt_def Let_def tw)
qed

lemma parseInt_JNum: "parseInt (JNum n) = Some n"
proof (cases "n < 0")
  case False
  have "parseInt (JNum n) = parseInt (JStr (show_nat (nat n)))"
    using False by (simp add: parseInt_def show_int_def)
  also have "\<dots> = Some (int (digits_val (show_nat (nat n))))"
    by (rule parseInt_digits [OF show_nat_not_Nil show_nat_digits])
  finally show ?thesis using False by (simp add: digits_val_show_nat)
next
  case True
  have "parseInt (JNum n) = parseInt (JStr (CHR ''-'' # show_nat (nat (- n))))"
    using True by (simp add: parseInt_def show_int_def)
  also have "\<dots> = Some (- int (digits_val (show_nat (nat (- n)))))"
    by (rule parseInt_minus_digits [OF show_nat_not_Nil show_nat_digits])
  finally show ?thesis using True by (simp add: digits_val_show_nat)
qed

section \<open>The shapes of a log of start\<close>

lemma promise_all_pair:
  "promise_all d f [(c1, r1), (c2, r2)] w =
     (case r1 of
        Inr x \<Rightarrow>
          (case r2 of
             Inr y \<Rightarrow> (Inr [x, y], w\<lparr>events := events w @ [Settled c1 (f x), Settled c2 (f y)]\<rparr>)
           | Inl e2 \<Rightarrow> (Inl e2, w\<lparr>events := events w @ [Settled c2 (Failed e2)]\<rparr>))
      | Inl e1 \<Rightarrow>
          (case r2 of
             Inr y \<Rightarrow> (Inl e1, w\<lparr>events := events w @ [Settled c1 (Failed e1)]\<rparr>)
           | Inl e2 \<Rightarrow>
               if first_rejected d (runtime w) [0, 1] = 1
               then (Inl e2, w\<lparr>events := events w @ [Settled c2 (Failed e2)]\<rparr>)
               else (Inl e1, w\<lparr>events := events w @ [Settled c1 (Failed e1)]\<rparr>)))"
  by (cases r1; cases r2) (auto simp: promise_all_def Let_def upt_conv_Cons numeral_2_eq_2)

lemma start_shape:
  assumes "imageParser (container config) = Some pp"
    and "start imageParser this d config w = (r, w')"
  shows "\<exists>es. events w' = events w @ es \<and>
    ((\<exists>c e. (c = launcherPull this \<or> c = buildPull pp) \<and> r = Inl e \<and>
        es = [Issued (launcherPull this), Issued (buildPull pp), Settled c (Failed e)])
   \<or> (\<exists>e. r = Inl e \<and>
        es = pulled this pp @
          [Issued (createLauncher this config), Settled (createLauncher this config) (Failed e)])
   \<or> (\<exists>lc e. r = Inl e \<and>
        es = launched this config pp lc @
          [Issued (createBuild this config lc), Settled (createBuild this config lc) (Failed e)])
   \<or> (\<exists>lc bc e. r = Inl e \<and>
        es = built this config pp lc bc @
          [Issued (StartContainer bc), Settled (StartContainer bc) (Failed e)])
   \<or> (\<exists>lc bc. r = Inr () \<and>
        es = built this config pp lc bc @
          [Issued (StartContainer bc), Settled (StartContainer bc) Done]))"
  using assms
  unfolding start_def createImage_def createContainer_def startContainer_def issue_def settle_def
  by (auto simp: promise_all_pair pulled_def launched_def built_def Let_def
      split: sum.splits prod.splits if_splits)

lemma start_unparsed:
  "imageParser (container config) = None \<Longrightarrow>
   start imageParser this d config w = (Inl TypeError, w)"
  by (simp add: start_def)

lemma start_pulls_first:
  assumes "imageParser (container config) = Some pp"
  shows "\<exists>es. events (snd (start imageParser this d config w)) =
           events w @ Issued (launcherPull this) # Issued (buildPull pp) # es"
proof -
  obtain r w' where run: "start imageParser this d config w = (r, w')"
    by (cases "start imageParser this d config w")
  from start_shape [OF assms run] show ?thesis
    by (auto simp: run pulled_def launched_def built_def)
qed

section \<open>The image reference given to the pull\<close>

lemma match_segment_slash:
  assumes "a \<noteq> []" and "CHR ''/'' \<notin> set a"
  shows "match_segment (a @ CHR ''/'' # s) = Some (a, s)"
proof -
  have all: "\<And>x. x \<in> set a \<Longrightarrow> x \<noteq> CHR ''/''" using assms(2) by auto
  have t: "takeWhile (\<lambda>x. x \<noteq> CHR ''/'') (a @ CHR ''/'' # s) = a"
    using all by (simp add: takeWhile_append2)
  have d: "dropWhile (\<lambda>x. x \<noteq> CHR ''/'') (a @ CHR ''/'' # s) = CHR ''/'' # s"
    using all by (simp add: dropWhile_append2)
  show ?thesis using assms(1) by (simp add: match_segment_def t d)
qed

lemma match_segment_none:
  assumes "CHR ''/'' \<notin> set s"
  shows "match_segment s = None"
proof -
  have "dropWhile (\<lambda>x. x \<noteq> CHR ''/'') s = []"
    using assms by (auto simp: dropWhile_eq_Nil_conv)
  then show ?thesis by (simp add: match_segment_def)
qed

lemma match_repository_bare:
  assumes "r \<noteq> []" and "\<forall>c \<in> set r. name_char c"
  shows "match_repository r = Some (r, None)"
proof -
  have t: "takeWhile name_char r = r" using assms(2) by (simp add: takeWhile_eq_all_conv)
  have d: "dropWhile name_char r = []" using assms(2) by (simp add: dropWhile_eq_Nil_conv)
  show ?thesis using assms(1) by (simp add: match_repository_def t d)
qed

lemma match_repository_tagged:
  assumes "r \<noteq> []" and "\<forall>c \<in> set r. name_char c"
    and "t \<noteq> []" and "\<forall>c \<in> set t. \<not> line_terminator c"
  shows "match_repository (r @ CHR '':'' # t) = Some (r, Some t)"
proof -
  have all: "\<And>x. x \<in> set r \<Longrightarrow> name_char x" using assms(2) by auto
  have n: "\<not> name_char CHR '':''" by (simp add: name_char_def)
  have tk: "takeWhile name_char (r @ CHR '':'' # t) = r"
    using all n by (simp add: takeWhile_append2)
  have dr: "dropWhile name_char (r @ CHR '':'' # t) = CHR '':'' # t"
    using all n by (simp add: dropWhile_append2)
  have la: "list_all (\<lambda>y. \<not> line_terminator y) t"
    using assms(4) by (simp add: list_all_iff)
  show ?thesis using assms(1,3) la by (simp add: match_repository_def tk dr)
qed

lemma name_chars_no_slash: "\<forall>c \<in> set r. name_char c \<Longrightarrow> CHR ''/'' \<notin> set r"
  by (auto simp: name_char_def)

lemma image_match_segments:
  assumes "match_repository q = Some (c, tg)" and "CHR ''/'' \<notin> set q"
  shows "image_match q = Some (None, None, c, tg)"
    and "a \<noteq> [] \<Longrightarrow> CHR ''/'' \<notin> set a \<Longrightarrow>
         image_match (a @ CHR ''/'' # q) = Some (Some a, None, c, tg)"
    and "a \<noteq> [] \<Longrightarrow> CHR ''/'' \<notin> set a \<Longrightarrow> b \<noteq> [] \<Longrightarrow> CHR ''/'' \<notin> set b \<Longrightarrow>
         image_match (a @ CHR ''/'' # b @ CHR ''/'' # q) = Some (Some a, Some b, c, tg)"
proof -
  have none: "match_segment q = None" using assms(2) by (rule match_segment_none)
  show "image_match q = Some (None, None, c, tg)"
    by (simp add: image_match_def none assms(1) Let_def)
  show "image_match (a @ CHR ''/'' # q) = Some (Some a, None, c, tg)"
    if "a \<noteq> []" and "CHR ''/'' \<notin> set a"
    using that by (simp add: image_match_def match_segment_slash none assms(1) Let_def)
  show "image_match (a @ CHR ''/'' # b @ CHR ''/'' # q) = Some (Some a, Some b, c, tg)"
    if "a \<noteq> []" and "CHR ''/'' \<notin> set a" and "b \<noteq> []" and "CHR ''/'' \<notin> set b"
    using that by (simp add: image_match_def match_segment_slash assms(1) Let_def)
qed

lemma parse_segments:
  assumes "length ns \<le> 2" and "\<forall>x \<in> set ns. x \<noteq> [] \<and> CHR ''/'' \<notin> set x"
    and "match_repository q = Some (r, tg)" and "CHR ''/'' \<notin> set q"
  shows "dockerParseImage (concat (map (\<lambda>x. x @ ''/'') ns) @ q) =
           Some \<lparr>pieces_name = concat (map (\<lambda>x. x @ ''/'') (kept_segments ns)) @ r @
                   (case tg of None \<Rightarrow> [] | Some t \<Rightarrow> if t \<noteq> ''latest'' then '':'' @ t else []),
                 pieces_tag = tg\<rparr>"
proof -
  consider "ns = []" | a where "ns = [a]" | a b where "ns = [a, b]"
    using assms(1) by (cases ns rule: list.exhaust; simp; cases "tl ns"; force)
  then show ?thesis
  proof cases
    case 1
    with image_match_segments(1) [OF assms(3,4)] show ?thesis
      by (auto simp: dockerParseImage_def kept_segments_def Let_def)
  next
    case 2
    with assms(2) have a: "a \<noteq> []" "CHR ''/'' \<notin> set a" by auto
    have lib: "CHR '':'' \<notin> set ''library'' \<and> CHR ''.'' \<notin> set ''library''" by simp
    from image_match_segments(2) [OF assms(3,4) a] 2 lib show ?thesis
      by (auto simp: dockerParseImage_def kept_segments_def Let_def)
  next
    case 3
    with assms(2) have a: "a \<noteq> []" "CHR ''/'' \<notin> set a" and b: "b \<noteq> []" "CHR ''/'' \<notin> set b"
      by auto
    from image_match_segments(3) [OF assms(3,4) a b] 3 show ?thesis
      by (auto simp: dockerParseImage_def kept_segments_def Let_def)
  qed
qed

lemma parse_untagged:
  assumes "length ns \<le> 2" and "\<forall>x \<in> set ns. x \<noteq> [] \<and> CHR ''/'' \<notin> set x"
    and "r \<noteq> []" and "\<forall>c \<in> set r. name_char c"
  shows "dockerParseImage (concat (map (\<lambda>x. x @ ''/'') ns) @ r) =
           Some \<lparr>pieces_name = concat (map (\<lambda>x. x @ ''/'') (kept_segments ns)) @ r,
                 pieces_tag = None\<rparr>"
  using parse_segments [OF assms(1,2) match_repository_bare [OF assms(3,4)]
      name_chars_no_slash [OF assms(4)]]
  by simp

lemma parse_tagged:
  assumes "length ns \<le> 2" and "\<forall>x \<in> set ns. x \<noteq> [] \<and> CHR ''/'' \<notin> set x"
    and "r \<noteq> []" and "\<forall>c \<in> set r. name_char c"
    and "t \<noteq> []" and "\<forall>c \<in> set t. c \<noteq> CHR ''/'' \<and> \<not> line_terminator c"
  shows "dockerParseImage (concat (map (\<lambda>x. x @ ''/'') ns) @ r @ '':'' @ t) =
           Some \<lparr>pieces_name = concat (map (\<lambda>x. x @ ''/'') (kept_segments ns)) @ r @
                   (if t \<noteq> ''latest'' then '':'' @ t else []),
                 pieces_tag = Some t\<rparr>"
proof -
  have m: "match_repository (r @ CHR '':'' # t) = Some (r, Some t)"
    using assms(3,4,5,6) by (intro match_repository_tagged) auto
  have "CHR ''/'' \<notin> set (r @ CHR '':'' # t)"
    using name_chars_no_slash [OF assms(4)] assms(6) by auto
  from parse_segments [OF assms(1,2) m this] show ?thesis by simp
qed

text \<open>
  The image that is pulled for a reference with a tag other than \<^verbatim>\<open>latest\<close>, and for a
  reference with no tag or the tag \<^verbatim>\<open>latest\<close>.
\<close>

lemma resolve_tagged:
  assumes "length ns \<le> 2" and "\<forall>x \<in> set ns. x \<noteq> [] \<and> CHR ''/'' \<notin> set x"
    and "r \<noteq> []" and "\<forall>c \<in> set r. name_char c"
    and "t \<noteq> []" and "t \<noteq> ''latest''"
    and "\<forall>c \<in> set t. c \<noteq> CHR '':'' \<and> c \<noteq> CHR ''/'' \<and> \<not> line_terminator c"
  shows "\<exists>p. dockerParseImage (concat (map (\<lambda>x. x @ ''/'') ns) @ r @ '':'' @ t) = Some p \<and>
           buildImageArgs p =
             \<lparr>fromImage = concat (map (\<lambda>x. x @ ''/'') (kept_segments ns)) @ r, tag = t\<rparr>"
proof -
  let ?kept = "concat (map (\<lambda>x. x @ ''/'') (kept_segments ns)) @ r"
  have "\<forall>c \<in> set t. c \<noteq> CHR ''/'' \<and> \<not> line_terminator c" using assms(7) by auto
  from parse_tagged [OF assms(1-5) this] assms(6)
  have parse: "dockerParseImage (concat (map (\<lambda>x. x @ ''/'') ns) @ r @ '':'' @ t) =
      Some \<lparr>pieces_name = ?kept @ '':'' @ t, pieces_tag = Some t\<rparr>"
    by simp
  have "CHR '':'' \<notin> set t" using assms(7) by auto
  then have "join '':'' (pop (split CHR '':'' (?kept @ CHR '':'' # t))) = ?kept"
    by (rule strip_tag)
  then have "buildImageArgs \<lparr>pieces_name = ?kept @ '':'' @ t, pieces_tag = Some t\<rparr> =
      \<lparr>fromImage = ?kept, tag = t\<rparr>"
    using assms(6) by (simp add: buildImageArgs_def)
  with parse show ?thesis by blast
qed

lemma resolve_untagged:
  assumes "reference = concat (map (\<lambda>x. x @ ''/'') ns) @ r \<or>
           reference = concat (map (\<lambda>x. x @ ''/'') ns) @ r @ '':latest''"
    and "length ns \<le> 2" and "\<forall>x \<in> set ns. x \<noteq> [] \<and> CHR ''/'' \<notin> set x"
    and "r \<noteq> []" and "\<forall>c \<in> set r. name_char c"
  shows "\<exists>p. dockerParseImage reference = Some p \<and>
           buildImageArgs p =
             \<lparr>fromImage = concat (map (\<lambda>x. x @ ''/'') (kept_segments ns)) @ r, tag = ''latest''\<rparr>"
  using assms(1)
proof
  assume "reference = concat (map (\<lambda>x. x @ ''/'') ns) @ r"
  with parse_untagged [OF assms(2-5)] show ?thesis
    by (simp add: buildImageArgs_def)
next
  assume c: "reference = concat (map (\<lambda>x. x @ ''/'') ns) @ r @ '':latest''"
  have "''latest'' \<noteq> []" and "\<forall>c \<in> set ''latest''. c \<noteq> CHR ''/'' \<and> \<not> line_terminator c"
    by (simp_all add: line_terminator_def)
  from parse_tagged [OF assms(2-5) this] c show ?thesis
    by (simp add: buildImageArgs_def)
qed

lemma parse_mock:
  "imageParserMock ''node:6'' = dockerParseImage ''node:6''"
  "imageParserMock ''node'' = dockerParseImage ''node''"
  "imageParserMock ''docker-registry.foo.bar:1111/someImage:latest'' =
     dockerParseImage ''docker-registry.foo.bar:1111/someImage:latest''"
  "imageParserMock ''docker-registry.foo.bar:1111/someImage'' =
     dockerParseImage ''docker-registry.foo.bar:1111/someImage''"
  "imageParserMock ''host:1111/someImage:v2'' = dockerParseImage ''host:1111/someImage:v2''"
  using parse_tagged [of "[]" "''node''" "''6''"]
    parse_untagged [of "[]" "''node''"]
    parse_tagged [of "[''docker-registry.foo.bar:1111'']" "''someImage''" "''latest''"]
    parse_untagged [of "[''docker-registry.foo.bar:1111'']" "''someImage''"]
    parse_tagged [of "[''host:1111'']" "''someImage''" "''v2''"]
  by (simp_all add: imageParserMock_def name_char_def line_terminator_def kept_segments_def)

text \<open>
  A namespace \<^verbatim>\<open>library\<close> is left out of the name, with a tag as without; a reference
  of four segments is not parsed, and \<open>start\<close> throws before any call.
\<close>

lemma library_segment_dropped:
  "map_option buildImageArgs (dockerParseImage ''library/someImage:v2'') =
     Some \<lparr>fromImage = ''someImage'', tag = ''v2''\<rparr>"
  "map_option buildImageArgs (dockerParseImage ''host:1111/library/someImage:v2'') =
     Some \<lparr>fromImage = ''host:1111/someImage'', tag = ''v2''\<rparr>"
  using resolve_tagged [of "[''library'']" "''someImage''" "''v2''"]
    resolve_tagged [of "[''host:1111'', ''library'']" "''someImage''" "''v2''"]
  by (auto simp: name_char_def line_terminator_def kept_segments_def)

lemma four_segments_throw:
  "dockerParseImage ''a/b/c/d'' = None \<and>
   start dockerParseImage this d (config\<lparr>container := ''a/b/c/d''\<rparr>) w = (Inl TypeError, w)"
proof -
  have "dockerParseImage ''a/b/c/d'' = None" by code_simp
  then show ?thesis by (simp add: start_unparsed)
qed

text \<open>
  C2. Let the image reference of the build be \<open>h/r:t\<close>: a first segment \<open>h\<close>, with or
  without a port, that is not the default namespace \<^verbatim>\<open>library\<close>; a repository name \<open>r\<close>;
  and a tag \<open>t\<close> that is not \<^verbatim>\<open>latest\<close> and holds no colon, slash or line break. Then
  the parser and \<open>start\<close> resolve it to \<open>fromImage = h/r\<close>, the reference with only
  the colon and the tag removed and nothing inserted, and \<open>tag = t\<close>; this is the second
  call that \<open>start\<close> issues. For \<^verbatim>\<open>host:1111/someImage:v2\<close> the result is
  \<^verbatim>\<open>host:1111/someImage\<close> with tag \<^verbatim>\<open>v2\<close>, not \<^verbatim>\<open>host:1111/library/someImage\<close>.
\<close>

theorem explicit_tag_kept:
  assumes "container config = h @ ''/'' @ r @ '':'' @ t"
    and "h \<noteq> []" and "CHR ''/'' \<notin> set h" and "h \<noteq> ''library''"
    and "r \<noteq> []" and "\<forall>c \<in> set r. name_char c"
    and "t \<noteq> []" and "t \<noteq> ''latest''"
    and "\<forall>c \<in> set t. c \<noteq> CHR '':'' \<and> c \<noteq> CHR ''/'' \<and> \<not> line_terminator c"
  shows "map_option buildImageArgs (dockerParseImage (container config)) =
           Some \<lparr>fromImage = h @ ''/'' @ r, tag = t\<rparr> \<and>
         (\<exists>es. events (snd (start dockerParseImage this d config w)) =
            events w @ Issued (launcherPull this)
              # Issued (CreateImage \<lparr>fromImage = h @ ''/'' @ r, tag = t\<rparr>) # es)"
proof -
  have "length [h] \<le> 2" and "\<forall>x \<in> set [h]. x \<noteq> [] \<and> CHR ''/'' \<notin> set x"
    using assms(2,3) by simp_all
  from resolve_tagged [OF this assms(5-9)] assms(1,4) obtain p where
    parse: "dockerParseImage (container config) = Some p"
    and args: "buildImageArgs p = \<lparr>fromImage = h @ ''/'' @ r, tag = t\<rparr>"
    by (auto simp: kept_segments_def)
  from start_pulls_first [of dockerParseImage config p this d w] parse args
  show ?thesis by simp
qed

theorem explicit_tag_kept_witness:
  "map_option buildImageArgs (dockerParseImage ''host:1111/someImage:v2'') =
     Some \<lparr>fromImage = ''host:1111/someImage'', tag = ''v2''\<rparr> \<and>
   ''host:1111/someImage'' \<noteq> ''host:1111/library/someImage'' \<and>
   (\<exists>es. events (snd (start dockerParseImage executorMock
              (dockerMock (createContainerStub ''90'') (\<lambda>c. Inr ()) (\<lambda>a. Inr []))
              (configMock\<lparr>container := ''host:1111/someImage:v2''\<rparr>) world0)) =
      Issued (launcherPull executorMock)
        # Issued (CreateImage \<lparr>fromImage = ''host:1111/someImage'', tag = ''v2''\<rparr>) # es)"
  using explicit_tag_kept [of "configMock\<lparr>container := ''host:1111/someImage:v2''\<rparr>"
      "''host:1111''" "''someImage''" "''v2''" executorMock
      "dockerMock (createContainerStub ''90'') (\<lambda>c. Inr ()) (\<lambda>a. Inr [])" world0]
  by (simp add: configMock_def world0_def name_char_def line_terminator_def)

text \<open>
  The reference \<^verbatim>\<open>library/node\<close> has no tag and is not pulled whole: the image pulled
  is \<^verbatim>\<open>node\<close>.
\<close>

theorem untagged_whole_counterexample:
  "map_option buildImageArgs (dockerParseImage ''library/node'') =
     Some \<lparr>fromImage = ''node'', tag = ''latest''\<rparr> \<and>
   fromImage \<lparr>fromImage = ''node'', tag = ''latest''\<rparr> \<noteq> ''library/node'' \<and>
   take 2 (issued (events (snd (start dockerParseImage executorMock
      (dockerMock (createContainerStub ''90'') (\<lambda>c. Inr ()) (\<lambda>a. Inr []))
      (configMock\<lparr>container := ''library/node''\<rparr>) world0)))) =
     [CreateImage \<lparr>fromImage = ''screwdrivercd/launcher'', tag = ''stable''\<rparr>,
      CreateImage \<lparr>fromImage = ''node'', tag = ''latest''\<rparr>]"
  by code_simp

text \<open>
  C3, amended. Let the image reference of the build have no tag, or the tag
  \<^verbatim>\<open>latest\<close>: at most two segments \<open>ns\<close>, then a repository name \<open>r\<close>, then nothing or
  \<^verbatim>\<open>:latest\<close>. Then the parser and \<open>start\<close> resolve it to the tag \<^verbatim>\<open>latest\<close> and, as
  \<open>fromImage\<close>, the reference without the tag and without a namespace \<^verbatim>\<open>library\<close>
  directly before the repository name; this is the second call that \<open>start\<close> issues.
  When there is no such namespace, \<open>fromImage\<close> is the whole reference without the tag,
  unchanged. Nothing is ever inserted, and the tag \<^verbatim>\<open>latest\<close> gives what no tag gives.
\<close>

theorem untagged_latest:
  assumes "container config = concat (map (\<lambda>x. x @ ''/'') ns) @ r \<or>
           container config = concat (map (\<lambda>x. x @ ''/'') ns) @ r @ '':latest''"
    and "length ns \<le> 2" and "\<forall>x \<in> set ns. x \<noteq> [] \<and> CHR ''/'' \<notin> set x"
    and "r \<noteq> []" and "\<forall>c \<in> set r. name_char c"
  shows "map_option buildImageArgs (dockerParseImage (container config)) =
           Some \<lparr>fromImage = concat (map (\<lambda>x. x @ ''/'') (kept_segments ns)) @ r,
                 tag = ''latest''\<rparr> \<and>
         (\<exists>es. events (snd (start dockerParseImage this d config w)) =
            events w @ Issued (launcherPull this)
              # Issued (CreateImage
                  \<lparr>fromImage = concat (map (\<lambda>x. x @ ''/'') (kept_segments ns)) @ r,
                   tag = ''latest''\<rparr>) # es) \<and>
         (ns = [] \<or> last ns \<noteq> ''library'' \<longrightarrow>
            concat (map (\<lambda>x. x @ ''/'') (kept_segments ns)) @ r =
            concat (map (\<lambda>x. x @ ''/'') ns) @ r)"
proof -
  from resolve_untagged [OF assms] obtain p where
    parse: "dockerParseImage (container config) = Some p"
    and args: "buildImageArgs p =
      \<lparr>fromImage = concat (map (\<lambda>x. x @ ''/'') (kept_segments ns)) @ r, tag = ''latest''\<rparr>"
    by blast
  have same: "ns = [] \<or> last ns \<noteq> ''library'' \<longrightarrow>
      concat (map (\<lambda>x. x @ ''/'') (kept_segments ns)) @ r = concat (map (\<lambda>x. x @ ''/'') ns) @ r"
    by (auto simp: kept_segments_def)
  from start_pulls_first [of dockerParseImage config p this d w] parse args same
  show ?thesis by simp
qed

theorem untagged_latest_witness:
  "map_option buildImageArgs (dockerParseImage ''docker-registry.foo.bar:1111/someImage'') =
     Some \<lparr>fromImage = ''docker-registry.foo.bar:1111/someImage'', tag = ''latest''\<rparr> \<and>
   map_option buildImageArgs (dockerParseImage ''docker-registry.foo.bar:1111/someImage:latest'') =
     Some \<lparr>fromImage = ''docker-registry.foo.bar:1111/someImage'', tag = ''latest''\<rparr> \<and>
   map_option buildImageArgs (dockerParseImage ''node'') =
     Some \<lparr>fromImage = ''node'', tag = ''latest''\<rparr> \<and>
   map_option buildImageArgs (dockerParseImage ''library/node'') =
     Some \<lparr>fromImage = ''node'', tag = ''latest''\<rparr> \<and>
   (\<exists>es. events (snd (start dockerParseImage executorMock
              (dockerMock (createContainerStub ''90'') (\<lambda>c. Inr ()) (\<lambda>a. Inr []))
              (configMock\<lparr>container := ''node''\<rparr>) world0)) =
      Issued (launcherPull executorMock)
        # Issued (CreateImage \<lparr>fromImage = ''node'', tag = ''latest''\<rparr>) # es)"
  using untagged_latest [of "configMock\<lparr>container := ''docker-registry.foo.bar:1111/someImage''\<rparr>"
      "[''docker-registry.foo.bar:1111'']" "''someImage''" executorMock
      "dockerMock (createContainerStub ''90'') (\<lambda>c. Inr ()) (\<lambda>a. Inr [])" world0]
    untagged_latest [of "configMock\<lparr>container := ''docker-registry.foo.bar:1111/someImage:latest''\<rparr>"
      "[''docker-registry.foo.bar:1111'']" "''someImage''" executorMock
      "dockerMock (createContainerStub ''90'') (\<lambda>c. Inr ()) (\<lambda>a. Inr [])" world0]
    untagged_latest [of "configMock\<lparr>container := ''node''\<rparr>" "[]" "''node''" executorMock
      "dockerMock (createContainerStub ''90'') (\<lambda>c. Inr ()) (\<lambda>a. Inr [])" world0]
    untagged_latest [of "configMock\<lparr>container := ''library/node''\<rparr>" "[''library'']" "''node''" executorMock
      "dockerMock (createContainerStub ''90'') (\<lambda>c. Inr ()) (\<lambda>a. Inr [])" world0]
  by (simp add: configMock_def world0_def name_char_def kept_segments_def)

section \<open>The command of the build container\<close>

lemma timeout_undefined: "buildTimeout config = JUndefined \<Longrightarrow> timeout config = Some 90"
  by (simp add: timeout_def js_or_def DEFAULT_BUILD_TIMEOUT_def parseInt_JNum)

lemma timeout_falsy: "\<not> truthy (buildTimeout config) \<Longrightarrow> timeout config = Some 90"
  by (simp add: timeout_def js_or_def DEFAULT_BUILD_TIMEOUT_def parseInt_JNum)


lemma show_int_1992: "show_int 1992 = ''1992''"
  by code_simp





text \<open>
  A string that is not empty is truthy, whatever it spells: the annotation \<^verbatim>\<open>"0"\<close> is
  parsed and gives the timeout 0.
\<close>

lemma timeout_string_zero:
  "timeout (config\<lparr>annotations := Some [''screwdriver.cd/timeout'' \<mapsto> JStr ''0'']\<rparr>) = Some 0"
  by (simp add: timeout_def buildTimeout_def js_or_def parseInt_def is_space_def is_digit_def
      digits_val_def)

text \<open>
  C10. When the annotation \<^verbatim>\<open>screwdriver.cd/timeout\<close> is present with a falsy value
  (the number 0, the empty string, \<^verbatim>\<open>null\<close>, \<^verbatim>\<open>false\<close>, \<^verbatim>\<open>undefined\<close>), the
  timeout is 90 and the options of the build container are those of a build request
  without annotations.
\<close>

theorem falsy_timeout_is_default:
  assumes "annotations config = Some a"
    and "a ''screwdriver.cd/timeout'' = Some v"
    and "\<not> truthy v"
  shows "timeout config = Some 90 \<and>
         buildArgs this config launchContainer =
           buildArgs this (config\<lparr>annotations := None\<rparr>) launchContainer"
proof -
  have "\<not> truthy (buildTimeout config)"
    using assms by (simp add: buildTimeout_def)
  then have t: "timeout config = Some 90" by (rule timeout_falsy)
  have "timeout (config\<lparr>annotations := None\<rparr>) = Some 90"
    by (rule timeout_undefined) (simp add: buildTimeout_def)
  with t show ?thesis by (simp add: buildArgs_def)
qed

theorem falsy_timeout_is_default_witness:
  "timeout (configMock\<lparr>annotations := Some [''screwdriver.cd/timeout'' \<mapsto> JNum 0]\<rparr>) = Some 90 \<and>
   timeout (configMock\<lparr>annotations := Some [''screwdriver.cd/timeout'' \<mapsto> JStr []]\<rparr>) = Some 90 \<and>
   buildArgs executorMock
      (configMock\<lparr>annotations := Some [''screwdriver.cd/timeout'' \<mapsto> JNum 0]\<rparr>)
      launcherContainerMock = buildArgs executorMock configMock launcherContainerMock"
  using falsy_timeout_is_default [of
      "configMock\<lparr>annotations := Some [''screwdriver.cd/timeout'' \<mapsto> JNum 0]\<rparr>"
      "[''screwdriver.cd/timeout'' \<mapsto> JNum 0]" "JNum 0" executorMock launcherContainerMock]
    falsy_timeout_is_default [of
      "configMock\<lparr>annotations := Some [''screwdriver.cd/timeout'' \<mapsto> JStr []]\<rparr>"
      "[''screwdriver.cd/timeout'' \<mapsto> JStr []]" "JStr []"]
  by (simp add: configMock_def)

section \<open>The calls of start\<close>

lemma issued_append: "issued (xs @ ys) = issued xs @ issued ys"
  by (induction xs rule: issued.induct) auto

lemma mock_start:
  "start imageParserMock executorMock
     (dockerMock (createContainerStub ''90'') (\<lambda>c. Inr ()) (\<lambda>a. Inr []))
     configMock world0 = (Inr (), \<lparr>runtime = (), events = startLogMock\<rparr>)"
  by code_simp

text \<open>
  C1. When \<open>start\<close> succeeds, the calls it has issued are, in this order: the pull of
  the launcher image with the configured version, the pull of the resolved build image,
  the creation of the support container, the creation of the build container, and the
  start of the container that the second creation returned; nothing else. The only
  entry of \<^verbatim>\<open>VolumesFrom\<close> of the build container is the id that the runtime gave the
  support container, followed by \<^verbatim>\<open>:rw\<close>.
\<close>

theorem start_success_calls:
  assumes "start imageParser this d config w = (Inr u, w')"
  shows "\<exists>piecesParts launchContainer buildContainer.
     imageParser (container config) = Some piecesParts \<and>
     events w' = events w @
       [Issued (CreateImage \<lparr>fromImage = launchImage this, tag = launchVersion this\<rparr>),
        Issued (CreateImage (buildImageArgs piecesParts)),
        Settled (CreateImage \<lparr>fromImage = launchImage this, tag = launchVersion this\<rparr>) Done,
        Settled (CreateImage (buildImageArgs piecesParts)) Done,
        Issued (CreateContainer (launcherArgs this config)),
        Settled (CreateContainer (launcherArgs this config)) (Created launchContainer),
        Issued (CreateContainer (buildArgs this config launchContainer)),
        Settled (CreateContainer (buildArgs this config launchContainer)) (Created buildContainer),
        Issued (StartContainer buildContainer),
        Settled (StartContainer buildContainer) Done] \<and>
     issued (drop (length (events w)) (events w')) =
       [CreateImage \<lparr>fromImage = launchImage this, tag = launchVersion this\<rparr>,
        CreateImage (buildImageArgs piecesParts),
        CreateContainer (launcherArgs this config),
        CreateContainer (buildArgs this config launchContainer),
        StartContainer buildContainer] \<and>
     map_option VolumesFrom (HostConfig (buildArgs this config launchContainer)) =
       Some [container_id launchContainer @ '':rw'']"
proof (cases "imageParser (container config)")
  case None
  with assms show ?thesis by (simp add: start_unparsed)
next
  case (Some pp)
  from start_shape [OF Some assms] obtain lc bc where
    "events w' = events w @ built this config pp lc bc @
       [Issued (StartContainer bc), Settled (StartContainer bc) Done]"
    by auto
  then have ev: "events w' = events w @
       [Issued (launcherPull this), Issued (buildPull pp),
        Settled (launcherPull this) Done, Settled (buildPull pp) Done,
        Issued (createLauncher this config), Settled (createLauncher this config) (Created lc),
        Issued (createBuild this config lc), Settled (createBuild this config lc) (Created bc),
        Issued (StartContainer bc), Settled (StartContainer bc) Done]"
    by (simp add: built_def launched_def pulled_def)
  have vf: "map_option VolumesFrom (HostConfig (buildArgs this config lc)) =
       Some [container_id lc @ '':rw'']"
    by (simp add: buildArgs_def)
  from Some ev vf show ?thesis
    by (simp add: launcherImageArgs_def)
qed


theorem start_success_calls_witness:
  "issued (events (snd (start imageParserMock executorMock
      (dockerMock (createContainerStub ''90'') (\<lambda>c. Inr ()) (\<lambda>a. Inr []))
      configMock world0))) =
     [CreateImage \<lparr>fromImage = ''screwdrivercd/launcher'', tag = ''stable''\<rparr>,
      CreateImage \<lparr>fromImage = ''node'', tag = ''6''\<rparr>,
      CreateContainer launcherArgsMock,
      CreateContainer (buildArgsMock ''90''),
      StartContainer buildContainerMock]"
proof -
  from start_success_calls [OF mock_start] obtain pp lc bc where
    ev: "startLogMock =
       [Issued (CreateImage \<lparr>fromImage = launchImage executorMock, tag = launchVersion executorMock\<rparr>),
        Issued (CreateImage (buildImageArgs pp)),
        Settled (CreateImage \<lparr>fromImage = launchImage executorMock, tag = launchVersion executorMock\<rparr>) Done,
        Settled (CreateImage (buildImageArgs pp)) Done,
        Issued (CreateContainer (launcherArgs executorMock configMock)),
        Settled (CreateContainer (launcherArgs executorMock configMock)) (Created lc),
        Issued (CreateContainer (buildArgs executorMock configMock lc)),
        Settled (CreateContainer (buildArgs executorMock configMock lc)) (Created bc),
        Issued (StartContainer bc),
        Settled (StartContainer bc) Done]"
    by (auto simp: world0_def)
  have "issued startLogMock =
     [CreateImage \<lparr>fromImage = ''screwdrivercd/launcher'', tag = ''stable''\<rparr>,
      CreateImage \<lparr>fromImage = ''node'', tag = ''6''\<rparr>,
      CreateContainer launcherArgsMock,
      CreateContainer (buildArgsMock ''90''),
      StartContainer buildContainerMock]"
    by (subst ev) (use ev in \<open>simp add: startLogMock_def\<close>)
  then show ?thesis by (simp add: mock_start)
qed


lemma mock_start_create_fails:
  "start imageParserMock executorMock
     (dockerMock (\<lambda>options. Inl (DockerError ''Unable to create container''))
        (\<lambda>c. Inr ()) (\<lambda>a. Inr []))
     configMock world0 =
   (Inl (DockerError ''Unable to create container''),
    \<lparr>runtime = (), events = createFailLogMock\<rparr>)"
  by code_simp

lemma mock_start_start_fails:
  "start imageParserMock executorMock
     (dockerMock (createContainerStub ''90'')
        (\<lambda>c. Inl (DockerError ''Unable to start container'')) (\<lambda>a. Inr []))
     configMock world0 =
   (Inl (DockerError ''Unable to start container''),
    \<lparr>runtime = (), events = startFailLogMock\<rparr>)"
  by code_simp

text \<open>
  C4. \<open>start\<close> never issues a removal. When a container creation that \<open>start\<close> issued
  fails, \<open>start\<close> rejects with that error and no container start is issued. When the
  start of the container fails, \<open>start\<close> rejects with that error, and both containers
  have been created before.
\<close>

theorem start_failure_no_rollback:
  assumes "start imageParser this d config w = (r, w')"
  shows "\<exists>es. events w' = events w @ es \<and>
     (\<forall>c options. RemoveContainer c options \<notin> set (issued es)) \<and>
     (\<forall>options e. Settled (CreateContainer options) (Failed e) \<in> set es \<longrightarrow>
        r = Inl e \<and> (\<forall>c. StartContainer c \<notin> set (issued es))) \<and>
     (\<forall>c e. Settled (StartContainer c) (Failed e) \<in> set es \<longrightarrow>
        r = Inl e \<and>
        (\<exists>lc. Settled (CreateContainer (launcherArgs this config)) (Created lc) \<in> set es \<and>
              Settled (CreateContainer (buildArgs this config lc)) (Created c) \<in> set es))"
proof (cases "imageParser (container config)")
  case None
  with assms have "events w' = events w @ []" by (simp add: start_unparsed)
  then show ?thesis by (intro exI [of _ "[]"]) simp
next
  case (Some pp)
  from start_shape [OF Some assms] obtain es where ev: "events w' = events w @ es"
    and shape:
    "(\<exists>c e. (c = launcherPull this \<or> c = buildPull pp) \<and> r = Inl e \<and>
        es = [Issued (launcherPull this), Issued (buildPull pp), Settled c (Failed e)])
   \<or> (\<exists>e. r = Inl e \<and>
        es = pulled this pp @
          [Issued (createLauncher this config), Settled (createLauncher this config) (Failed e)])
   \<or> (\<exists>lc e. r = Inl e \<and>
        es = launched this config pp lc @
          [Issued (createBuild this config lc), Settled (createBuild this config lc) (Failed e)])
   \<or> (\<exists>lc bc e. r = Inl e \<and>
        es = built this config pp lc bc @
          [Issued (StartContainer bc), Settled (StartContainer bc) (Failed e)])
   \<or> (\<exists>lc bc. r = Inr () \<and>
        es = built this config pp lc bc @
          [Issued (StartContainer bc), Settled (StartContainer bc) Done])"
    by blast
  have no_remove: "\<forall>c options. RemoveContainer c options \<notin> set (issued es)"
    using shape by (auto simp: pulled_def launched_def built_def)
  have create: "\<forall>options e. Settled (CreateContainer options) (Failed e) \<in> set es \<longrightarrow>
        r = Inl e \<and> (\<forall>c. StartContainer c \<notin> set (issued es))"
    using shape by (auto simp: pulled_def launched_def built_def)
  have starting: "\<forall>c e. Settled (StartContainer c) (Failed e) \<in> set es \<longrightarrow>
        r = Inl e \<and>
        (\<exists>lc. Settled (CreateContainer (launcherArgs this config)) (Created lc) \<in> set es \<and>
              Settled (CreateContainer (buildArgs this config lc)) (Created c) \<in> set es)"
    using shape by (auto simp: pulled_def launched_def built_def)
  from ev no_remove create starting show ?thesis by blast
qed

theorem start_failure_no_rollback_witness:
  "start imageParserMock executorMock
     (dockerMock (\<lambda>options. Inl (DockerError ''Unable to create container''))
        (\<lambda>c. Inr ()) (\<lambda>a. Inr []))
     configMock world0 =
   (Inl (DockerError ''Unable to create container''),
    \<lparr>runtime = (), events = createFailLogMock\<rparr>) \<and>
   (\<forall>c. StartContainer c \<notin> set (issued createFailLogMock)) \<and>
   (\<forall>c options. RemoveContainer c options \<notin> set (issued createFailLogMock)) \<and>
   start imageParserMock executorMock
     (dockerMock (createContainerStub ''90'')
        (\<lambda>c. Inl (DockerError ''Unable to start container'')) (\<lambda>a. Inr []))
     configMock world0 =
   (Inl (DockerError ''Unable to start container''),
    \<lparr>runtime = (), events = startFailLogMock\<rparr>) \<and>
   (\<forall>c options. RemoveContainer c options \<notin> set (issued startFailLogMock)) \<and>
   (\<exists>lc. Settled (CreateContainer (launcherArgs executorMock configMock)) (Created lc)
           \<in> set startFailLogMock \<and>
         Settled (CreateContainer (buildArgs executorMock configMock lc)) (Created buildContainerMock)
           \<in> set startFailLogMock)"
proof -
  have m1: "Settled (CreateContainer launcherArgsMock)
      (Failed (DockerError ''Unable to create container'')) \<in> set createFailLogMock"
    by (simp add: createFailLogMock_def)
  have m2: "Settled (StartContainer buildContainerMock)
      (Failed (DockerError ''Unable to start container'')) \<in> set startFailLogMock"
    by (simp add: startFailLogMock_def)
  from start_failure_no_rollback [OF mock_start_create_fails] m1
  have a: "(\<forall>c. StartContainer c \<notin> set (issued createFailLogMock)) \<and>
     (\<forall>c options. RemoveContainer c options \<notin> set (issued createFailLogMock))"
    by (auto simp: world0_def)
  from start_failure_no_rollback [OF mock_start_start_fails] m2
  have b: "(\<forall>c options. RemoveContainer c options \<notin> set (issued startFailLogMock)) \<and>
     (\<exists>lc. Settled (CreateContainer (launcherArgs executorMock configMock)) (Created lc)
           \<in> set startFailLogMock \<and>
         Settled (CreateContainer (buildArgs executorMock configMock lc)) (Created buildContainerMock)
           \<in> set startFailLogMock)"
    by (auto simp: world0_def)
  from a b mock_start_create_fails mock_start_start_fails show ?thesis by simp
qed


lemma mock_parse:
  "imageParserMock (container configMock) =
     Some \<lparr>pieces_name = ''node:6'', pieces_tag = Some ''6''\<rparr>"
  by (simp add: imageParserMock_def configMock_def)

text \<open>
  C6. In the log of one \<open>start\<close>: the two pulls are the first two events, both issued
  before either is seen to settle; no container creation is issued before both pulls
  have settled with success; the build container is not created before the creation of
  the support container has settled with the container whose id it mounts; and the
  container that is started was returned before by the creation of the build container.
\<close>

theorem start_order:
  assumes "imageParser (container config) = Some piecesParts"
    and "start imageParser this d config w = (r, w')"
  shows "\<exists>es. events w' = events w @ es \<and>
     take 2 es = [Issued (launcherPull this), Issued (buildPull piecesParts)] \<and>
     (\<forall>options.
        happens_before (Settled (launcherPull this) Done) (Issued (CreateContainer options)) es \<and>
        happens_before (Settled (buildPull piecesParts) Done) (Issued (CreateContainer options)) es) \<and>
     (\<forall>lc. happens_before (Settled (createLauncher this config) (Created lc))
                             (Issued (createBuild this config lc)) es) \<and>
     (\<forall>bc. Issued (StartContainer bc) \<in> set es \<longrightarrow>
        (\<exists>lc. Settled (createBuild this config lc) (Created bc) \<in> set es \<and>
              happens_before (Settled (createBuild this config lc) (Created bc))
                             (Issued (StartContainer bc)) es))"
proof -
  from start_shape [OF assms] obtain es where ev: "events w' = events w @ es"
    and shape:
    "(\<exists>c e. (c = launcherPull this \<or> c = buildPull piecesParts) \<and> r = Inl e \<and>
        es = [Issued (launcherPull this), Issued (buildPull piecesParts), Settled c (Failed e)])
   \<or> (\<exists>e. r = Inl e \<and>
        es = pulled this piecesParts @
          [Issued (createLauncher this config), Settled (createLauncher this config) (Failed e)])
   \<or> (\<exists>lc e. r = Inl e \<and>
        es = launched this config piecesParts lc @
          [Issued (createBuild this config lc), Settled (createBuild this config lc) (Failed e)])
   \<or> (\<exists>lc bc e. r = Inl e \<and>
        es = built this config piecesParts lc bc @
          [Issued (StartContainer bc), Settled (StartContainer bc) (Failed e)])
   \<or> (\<exists>lc bc. r = Inr () \<and>
        es = built this config piecesParts lc bc @
          [Issued (StartContainer bc), Settled (StartContainer bc) Done])"
    by blast
  have first: "take 2 es = [Issued (launcherPull this), Issued (buildPull piecesParts)]"
    using shape by (auto simp: pulled_def launched_def built_def)
  have pulls: "\<forall>options.
        happens_before (Settled (launcherPull this) Done) (Issued (CreateContainer options)) es \<and>
        happens_before (Settled (buildPull piecesParts) Done) (Issued (CreateContainer options)) es"
    using shape by (auto simp: pulled_def launched_def built_def)
  have support: "\<forall>lc. happens_before (Settled (createLauncher this config) (Created lc))
                             (Issued (createBuild this config lc)) es"
    using shape by (auto simp: pulled_def launched_def built_def launcherArgs_def buildArgs_def)
  have build: "\<forall>bc. Issued (StartContainer bc) \<in> set es \<longrightarrow>
        (\<exists>lc. Settled (createBuild this config lc) (Created bc) \<in> set es \<and>
              happens_before (Settled (createBuild this config lc) (Created bc))
                             (Issued (StartContainer bc)) es)"
    using shape by (auto simp: pulled_def launched_def built_def)
  from ev first pulls support build show ?thesis by blast
qed


theorem start_order_witness:
  "take 2 startLogMock =
     [Issued (launcherPull executorMock),
      Issued (buildPull \<lparr>pieces_name = ''node:6'', pieces_tag = Some ''6''\<rparr>)] \<and>
   happens_before (Settled (launcherPull executorMock) Done)
     (Issued (CreateContainer launcherArgsMock)) startLogMock \<and>
   happens_before (Settled (createLauncher executorMock configMock) (Created launcherContainerMock))
     (Issued (createBuild executorMock configMock launcherContainerMock)) startLogMock \<and>
   (\<exists>lc. Settled (createBuild executorMock configMock lc) (Created buildContainerMock)
           \<in> set startLogMock \<and>
         happens_before (Settled (createBuild executorMock configMock lc) (Created buildContainerMock))
           (Issued (StartContainer buildContainerMock)) startLogMock)"
proof -
  have m: "Issued (StartContainer buildContainerMock) \<in> set startLogMock"
    by (simp add: startLogMock_def)
  from start_order [OF mock_parse mock_start] m show ?thesis
    by (simp add: world0_def)
qed

text \<open>
  C9. The options of the build container always have a host configuration with
  \<^verbatim>\<open>Privileged\<close> set and the socket of the Docker daemon among the \<^verbatim>\<open>Binds\<close>; this
  holds for every container that \<open>start\<close> creates other than the support container.
\<close>

theorem build_container_privileged:
  assumes "start imageParser this d config w = (r, w')"
  shows "(\<forall>lc. \<exists>h. HostConfig (buildArgs this config lc) = Some h \<and> Privileged h \<and>
            ''/var/run/docker.sock:/var/run/docker.sock'' \<in> set (Binds h)) \<and>
         (\<exists>es. events w' = events w @ es \<and>
            (\<forall>options. CreateContainer options \<in> set (issued es) \<and>
                 options \<noteq> launcherArgs this config \<longrightarrow>
               (\<exists>h. HostConfig options = Some h \<and> Privileged h \<and>
                  ''/var/run/docker.sock:/var/run/docker.sock'' \<in> set (Binds h))))"
proof -
  have opts: "\<forall>lc. \<exists>h. HostConfig (buildArgs this config lc) = Some h \<and> Privileged h \<and>
            ''/var/run/docker.sock:/var/run/docker.sock'' \<in> set (Binds h)"
    by (simp add: buildArgs_def)
  have "\<exists>es. events w' = events w @ es \<and>
            (\<forall>options. CreateContainer options \<in> set (issued es) \<and>
                 options \<noteq> launcherArgs this config \<longrightarrow>
               (\<exists>lc. options = buildArgs this config lc))"
  proof (cases "imageParser (container config)")
    case None
    with assms have "events w' = events w @ []" by (simp add: start_unparsed)
    then show ?thesis by (intro exI [of _ "[]"]) simp
  next
    case (Some pp)
    from start_shape [OF Some assms] show ?thesis
      by (elim exE conjE disjE) (auto simp: pulled_def launched_def built_def)
  qed
  with opts show ?thesis by blast
qed

theorem build_container_privileged_witness:
  "\<exists>h. HostConfig (buildArgsMock ''90'') = Some h \<and> Privileged h \<and>
      ''/var/run/docker.sock:/var/run/docker.sock'' \<in> set (Binds h)"
proof -
  have i: "CreateContainer (buildArgsMock ''90'') \<in> set (issued startLogMock)"
    by (simp add: startLogMock_def)
  have n: "buildArgsMock ''90'' \<noteq> launcherArgs executorMock configMock"
    by (simp add: buildArgsMock_def launcherArgs_def)
  from build_container_privileged [OF mock_start] i n show ?thesis
    by (simp add: world0_def)
qed

section \<open>The calls of stop, and the names\<close>

lemma removeContainers_events:
  "removeContainers d cs w = (ps, w') \<Longrightarrow>
   events w' = events w @
     map (\<lambda>c. Issued (RemoveContainer c \<lparr>remove_v = True, remove_force = True\<rparr>)) cs"
proof (induction cs arbitrary: w ps w')
  case Nil
  then show ?case by simp
next
  case (Cons c cs)
  obtain p w1 where p: "removeContainer d c w = (p, w1)"
    by (cases "removeContainer d c w")
  obtain qs w2 where q: "removeContainers d cs w1 = (qs, w2)"
    by (cases "removeContainers d cs w1")
  from p have e1: "events w1 = events w @
      [Issued (RemoveContainer c \<lparr>remove_v = True, remove_force = True\<rparr>)]"
    by (auto simp: removeContainer_def issue_def)
  from Cons.IH [OF q] have e2: "events w2 = events w1 @
      map (\<lambda>c. Issued (RemoveContainer c \<lparr>remove_v = True, remove_force = True\<rparr>)) cs" .
  from Cons.prems p q have "w' = w2" by simp
  with e1 e2 show ?case by simp
qed

lemma issued_map_Issued: "issued (map Issued cs) = cs"
  by (induction cs) auto

lemma issued_map_Settled: "issued (map (\<lambda>p. Settled (g p) (h p)) ps) = []"
  by (induction ps) auto

lemma promise_all_settles:
  "promise_all d f ps w = (r, w') \<Longrightarrow> \<exists>ss. events w' = events w @ ss \<and> issued ss = []"
  by (auto simp: promise_all_def Let_def issued_map_Settled split: if_splits)

lemma promise_all_Nil: "promise_all d f [] w = (r, w') \<Longrightarrow> r = Inr []"
  by (auto simp: promise_all_def)

lemma stop_shape:
  assumes "stop this d b w = (r, w')"
  shows "\<exists>es. events w' = events w @ es \<and>
           take 1 es = [Issued (ListContainers (listArgs this b))] \<and>
           (case fst (docker_listContainers d (listArgs this b) (runtime w)) of
              Inl e \<Rightarrow> r = Inl e \<and> issued es = [ListContainers (listArgs this b)]
            | Inr found \<Rightarrow>
                take 2 es = [Issued (ListContainers (listArgs this b)),
                             Settled (ListContainers (listArgs this b)) (Found found)] \<and>
                issued es = ListContainers (listArgs this b) #
                  map (\<lambda>i. RemoveContainer (docker_getContainer d (info_Id i))
                              \<lparr>remove_v = True, remove_force = True\<rparr>) found \<and>
                (found = [] \<longrightarrow> r = Inr []))"
proof -
  let ?q = "docker_listContainers d (listArgs this b) (runtime w)"
  let ?L = "ListContainers (listArgs this b)"
  show ?thesis
  proof (cases "fst ?q")
    case (Inl e)
    with assms have "r = Inl e" and "events w' = events w @ [Issued ?L, Settled ?L (Failed e)]"
      by (auto simp: stop_def findContainers_def issue_def settle_def Let_def split: prod.splits)
    with Inl show ?thesis
      by (intro exI [of _ "[Issued ?L, Settled ?L (Failed e)]"]) simp
  next
    case (Inr found)
    let ?cs = "map (\<lambda>c. docker_getContainer d (info_Id c)) found"
    let ?w1 = "\<lparr>runtime = snd ?q, events = events w @ [Issued ?L, Settled ?L (Found found)]\<rparr>"
    have fc: "findContainers this d b w = (Inr ?cs, ?w1)"
      using Inr by (simp add: findContainers_def issue_def settle_def Let_def split: prod.splits)
    obtain ps w2 where rc: "removeContainers d ?cs ?w1 = (ps, w2)"
      by (cases "removeContainers d ?cs ?w1")
    from assms fc rc have pa: "promise_all d (\<lambda>_. Done) ps w2 = (r, w')"
      by (simp add: stop_def)
    from removeContainers_events [OF rc] have e2: "events w2 =
        events w @ [Issued ?L, Settled ?L (Found found)] @
        map (\<lambda>c. Issued (RemoveContainer c \<lparr>remove_v = True, remove_force = True\<rparr>)) ?cs"
      by simp
    from promise_all_settles [OF pa] obtain ss where
      e3: "events w' = events w2 @ ss" and ss: "issued ss = []"
      by blast
    have empty: "found = [] \<longrightarrow> r = Inr []"
    proof
      assume "found = []"
      with rc have "ps = []" by simp
      with pa show "r = Inr []" by (simp add: promise_all_Nil)
    qed
    let ?es = "[Issued ?L, Settled ?L (Found found)] @
        map (\<lambda>c. Issued (RemoveContainer c \<lparr>remove_v = True, remove_force = True\<rparr>)) ?cs @ ss"
    have "events w' = events w @ ?es" using e2 e3 by simp
    moreover have "take 1 ?es = [Issued ?L]" by simp
    moreover have "take 2 ?es = [Issued ?L, Settled ?L (Found found)]" by simp
    moreover have "issued ?es = ?L #
        map (\<lambda>i. RemoveContainer (docker_getContainer d (info_Id i))
                    \<lparr>remove_v = True, remove_force = True\<rparr>) found"
      using ss issued_map_Issued [of "map (\<lambda>c. RemoveContainer c \<lparr>remove_v = True, remove_force = True\<rparr>) ?cs"]
      by (simp add: issued_append comp_def)
    ultimately show ?thesis using Inr empty by (intro exI [of _ ?es]) simp
  qed
qed

lemma mock_listArgs: "listArgs executorMock 1992 = findArgsMock"
  by code_simp

text \<open>
  C5. \<open>stop\<close> first issues one query for the containers whose label is
  \<^verbatim>\<open>sdbuild=\<close> followed by the prefix and the build id, stopped containers included.
  When the query fails, \<open>stop\<close> rejects with its error and issues nothing else. When it
  yields containers, \<open>stop\<close> then issues, after the query has settled, one removal with
  \<^verbatim>\<open>{ v: true, force: true }\<close> for each of them, in their order, and no other call. With
  no container, \<open>stop\<close> succeeds and issues no removal.
\<close>

theorem stop_calls:
  assumes "stop this d b w = (r, w')"
  shows "listArgs this b =
           \<lparr>filters = stringify_label (''sdbuild='' @ prefix this @ show_int b), args_all = True\<rparr> \<and>
         (\<exists>es. events w' = events w @ es \<and>
           take 1 es = [Issued (ListContainers (listArgs this b))] \<and>
           (case fst (docker_listContainers d (listArgs this b) (runtime w)) of
              Inl e \<Rightarrow> r = Inl e \<and> issued es = [ListContainers (listArgs this b)]
            | Inr found \<Rightarrow>
                take 2 es = [Issued (ListContainers (listArgs this b)),
                             Settled (ListContainers (listArgs this b)) (Found found)] \<and>
                issued es = ListContainers (listArgs this b) #
                  map (\<lambda>i. RemoveContainer (docker_getContainer d (info_Id i))
                              \<lparr>remove_v = True, remove_force = True\<rparr>) found \<and>
                (found = [] \<longrightarrow> r = Inr [])))"
  using stop_shape [OF assms] by (simp add: listArgs_def)

theorem stop_calls_witness:
  "issued (events (snd (stop executorMock
      (dockerMock (createContainerStub ''90'') (\<lambda>c. Inr ()) listContainersStub) 1992 world0))) =
     [ListContainers findArgsMock,
      RemoveContainer containerMock \<lparr>remove_v = True, remove_force = True\<rparr>,
      RemoveContainer containerMock \<lparr>remove_v = True, remove_force = True\<rparr>] \<and>
   fst (stop executorMock
      (dockerMock (createContainerStub ''90'') (\<lambda>c. Inr ()) (\<lambda>a. Inr [])) 1992 world0) = Inr [] \<and>
   issued (events (snd (stop executorMock
      (dockerMock (createContainerStub ''90'') (\<lambda>c. Inr ()) (\<lambda>a. Inr [])) 1992 world0))) =
     [ListContainers findArgsMock]"
proof -
  let ?d2 = "dockerMock (createContainerStub ''90'') (\<lambda>c. Inr ()) listContainersStub"
  let ?d0 = "dockerMock (createContainerStub ''90'') (\<lambda>c. Inr ()) (\<lambda>a. Inr [])"
  have l2: "fst (docker_listContainers ?d2 (listArgs executorMock 1992) (runtime world0)) =
      Inr [containerShellMock, containerShellMock]"
    by (simp add: mock_listArgs dockerMock_def listContainersStub_def)
  have l0: "fst (docker_listContainers ?d0 (listArgs executorMock 1992) (runtime world0)) = Inr []"
    by (simp add: dockerMock_def)
  have g: "docker_getContainer ?d2 (info_Id containerShellMock) = containerMock"
    by (simp add: dockerMock_def)
  have r2: "stop executorMock ?d2 1992 world0 =
      (fst (stop executorMock ?d2 1992 world0), snd (stop executorMock ?d2 1992 world0))"
    by simp
  have r0: "stop executorMock ?d0 1992 world0 =
      (fst (stop executorMock ?d0 1992 world0), snd (stop executorMock ?d0 1992 world0))"
    by simp
  from stop_calls [OF r2] l2 g have a:
    "issued (events (snd (stop executorMock ?d2 1992 world0))) =
     [ListContainers findArgsMock,
      RemoveContainer containerMock \<lparr>remove_v = True, remove_force = True\<rparr>,
      RemoveContainer containerMock \<lparr>remove_v = True, remove_force = True\<rparr>]"
    by (auto simp: world0_def mock_listArgs)
  from stop_calls [OF r0] l0 have b:
    "fst (stop executorMock ?d0 1992 world0) = Inr [] \<and>
     issued (events (snd (stop executorMock ?d0 1992 world0))) = [ListContainers findArgsMock]"
    by (auto simp: world0_def mock_listArgs)
  from a b show ?thesis by simp
qed

text \<open>
  C7. The support container is named by the prefix, the build id and \<^verbatim>\<open>-init\<close>, the
  build container by the prefix, the build id and \<^verbatim>\<open>-build\<close>. Every container that
  \<open>start\<close> creates is one of the two and carries the one label \<^verbatim>\<open>sdbuild\<close> with the
  value prefix followed by build id; the query that \<open>stop\<close> issues first filters on
  that value.
\<close>

theorem names_and_label:
  assumes "start imageParser this d config w = (r, w')"
    and "stop this d (buildId config) v = (q, v')"
  shows "name (launcherArgs this config) = prefix this @ show_int (buildId config) @ ''-init'' \<and>
     (\<forall>lc. name (buildArgs this config lc) =
             prefix this @ show_int (buildId config) @ ''-build'') \<and>
     (\<exists>es. events w' = events w @ es \<and>
        (\<forall>options. CreateContainer options \<in> set (issued es) \<longrightarrow>
           Labels options = [(''sdbuild'', prefix this @ show_int (buildId config))] \<and>
           (options = launcherArgs this config \<or> (\<exists>lc. options = buildArgs this config lc)))) \<and>
     (\<exists>fs. events v' = events v @
        Issued (ListContainers
          \<lparr>filters = stringify_label (''sdbuild='' @ prefix this @ show_int (buildId config)),
           args_all = True\<rparr>) # fs)"
proof -
  have n1: "name (launcherArgs this config) = prefix this @ show_int (buildId config) @ ''-init''"
    by (simp add: launcherArgs_def)
  have n2: "\<forall>lc. name (buildArgs this config lc) =
             prefix this @ show_int (buildId config) @ ''-build''"
    by (simp add: buildArgs_def)
  have l1: "Labels (launcherArgs this config) =
      [(''sdbuild'', prefix this @ show_int (buildId config))]"
    by (simp add: launcherArgs_def)
  have l2: "\<And>lc. Labels (buildArgs this config lc) =
      [(''sdbuild'', prefix this @ show_int (buildId config))]"
    by (simp add: buildArgs_def)
  have "\<exists>es. events w' = events w @ es \<and>
        (\<forall>options. CreateContainer options \<in> set (issued es) \<longrightarrow>
           (options = launcherArgs this config \<or> (\<exists>lc. options = buildArgs this config lc)))"
  proof (cases "imageParser (container config)")
    case None
    with assms(1) have "events w' = events w @ []" by (simp add: start_unparsed)
    then show ?thesis by (intro exI [of _ "[]"]) simp
  next
    case (Some pp)
    from start_shape [OF Some assms(1)] show ?thesis
      by (elim exE conjE disjE) (auto simp: pulled_def launched_def built_def)
  qed
  then have created: "\<exists>es. events w' = events w @ es \<and>
        (\<forall>options. CreateContainer options \<in> set (issued es) \<longrightarrow>
           Labels options = [(''sdbuild'', prefix this @ show_int (buildId config))] \<and>
           (options = launcherArgs this config \<or> (\<exists>lc. options = buildArgs this config lc)))"
    using l1 l2 by metis
  from stop_shape [OF assms(2)] obtain fs0 where
    ev: "events v' = events v @ fs0" and
    first: "take 1 fs0 = [Issued (ListContainers (listArgs this (buildId config)))]"
    by blast
  from first obtain fs where
    "fs0 = Issued (ListContainers (listArgs this (buildId config))) # fs"
    by (cases fs0) auto
  with ev have listing: "\<exists>fs. events v' = events v @
        Issued (ListContainers
          \<lparr>filters = stringify_label (''sdbuild='' @ prefix this @ show_int (buildId config)),
           args_all = True\<rparr>) # fs"
    by (auto simp: listArgs_def)
  from n1 n2 created listing show ?thesis by blast
qed


theorem names_and_label_witness:
  "name (launcherArgs executorMock configMock) = ''1992-init'' \<and>
   name (buildArgs executorMock configMock launcherContainerMock) = ''1992-build'' \<and>
   Labels launcherArgsMock = [(''sdbuild'', ''1992'')] \<and>
   Labels (buildArgsMock ''90'') = [(''sdbuild'', ''1992'')] \<and>
   (\<exists>fs. events (snd (stop executorMock
       (dockerMock (createContainerStub ''90'') (\<lambda>c. Inr ()) (\<lambda>a. Inr [])) 1992 world0)) =
      Issued (ListContainers findArgsMock) # fs)"
proof -
  let ?d = "dockerMock (createContainerStub ''90'') (\<lambda>c. Inr ()) (\<lambda>a. Inr [])"
  have bid: "buildId configMock = 1992" by (simp add: configMock_def)
  have pre: "prefix executorMock = []" by (simp add: executorMock_def)
  have r: "stop executorMock ?d (buildId configMock) world0 =
      (fst (stop executorMock ?d 1992 world0), snd (stop executorMock ?d 1992 world0))"
    by (simp add: bid)
  have la: "\<lparr>filters = stringify_label (''sdbuild='' @ prefix executorMock @ show_int (buildId configMock)),
            args_all = True\<rparr> = findArgsMock"
    using mock_listArgs by (simp add: listArgs_def bid)
  have i1: "CreateContainer launcherArgsMock \<in> set (issued startLogMock)"
    and i2: "CreateContainer (buildArgsMock ''90'') \<in> set (issued startLogMock)"
    by (simp_all add: startLogMock_def)
  note t = names_and_label [OF mock_start r]
  from t have n: "name (launcherArgs executorMock configMock) = ''1992-init'' \<and>
      name (buildArgs executorMock configMock launcherContainerMock) = ''1992-build''"
    by (simp add: bid pre show_int_1992)
  from t i1 i2 have l: "Labels launcherArgsMock = [(''sdbuild'', ''1992'')] \<and>
      Labels (buildArgsMock ''90'') = [(''sdbuild'', ''1992'')]"
    by (simp add: world0_def bid pre show_int_1992)
  from t have s: "\<exists>fs. events (snd (stop executorMock ?d 1992 world0)) =
      Issued (ListContainers findArgsMock) # fs"
    unfolding la by (simp add: world0_def)
  from n l s show ?thesis by simp
qed

end
